theory Spec2Isabelle
  imports Main "HOL-Library.Char_ord"
begin

section \<open>EmbedMCP: the protocol engine, embedded\<close>

text \<open>
  A shallow embedding of the parts of the EmbedMCP server that decide the properties
  below: the lifecycle state machine (\<^verbatim>\<open>protocol/protocol_state.c\<close>), the message
  codec (\<^verbatim>\<open>protocol/message.c\<close>, \<^verbatim>\<open>protocol/jsonrpc.c\<close>), the dispatcher
  (\<^verbatim>\<open>protocol/mcp_protocol.c\<close>, \<^verbatim>\<open>embed_mcp.c\<close>), the tool registry
  (\<^verbatim>\<open>tools/tool_interface.c\<close>, \<^verbatim>\<open>tools/tool_registry.c\<close>) and the resource
  registry with its templates and file handler (\<^verbatim>\<open>tools/resource_*.c\<close>,
  \<^verbatim>\<open>tools/file_resource_handler.c\<close>).

  Conventions. A C string is a \<^typ>\<open>string\<close>; a pointer that the code tests against
  \<^verbatim>\<open>NULL\<close> is an \<^typ>\<open>'a option\<close>. The objects a function works on (the protocol,
  a registry, the state machine) are passed by value, so the guards against a
  \<^verbatim>\<open>NULL\<close> object and against a failed allocation have no branch here. Locks are not
  modelled: every function below runs on the one thread that delivered the message.
\<close>

subsection \<open>Lifecycle state machine\<close>

datatype mcp_protocol_state =
    MCP_STATE_UNINITIALIZED
  | MCP_STATE_INITIALIZING
  | MCP_STATE_INITIALIZED
  | MCP_STATE_READY
  | MCP_STATE_ERROR
  | MCP_STATE_SHUTDOWN

datatype mcp_protocol_event =
    MCP_EVENT_INITIALIZE_REQUEST
  | MCP_EVENT_INITIALIZE_RESPONSE
  | MCP_EVENT_INITIALIZED_NOTIFICATION
  | MCP_EVENT_REQUEST
  | MCP_EVENT_RESPONSE
  | MCP_EVENT_NOTIFICATION
  | MCP_EVENT_ERROR
  | MCP_EVENT_SHUTDOWN

text \<open>
  The fields of \<^verbatim>\<open>mcp_protocol_state_machine_t\<close> that a transition reads or writes.
  \<^verbatim>\<open>state_entered_time\<close> is a reading of the clock, \<^verbatim>\<open>transition_count\<close> a
  \<^verbatim>\<open>size_t\<close> kept as a natural number.
\<close>

record mcp_protocol_state_machine =
  current_state :: mcp_protocol_state
  previous_state :: mcp_protocol_state
  state_entered_time :: int
  transition_count :: nat

definition mcp_protocol_state_create :: "int \<Rightarrow> mcp_protocol_state_machine" where
  "mcp_protocol_state_create now =
     \<lparr> current_state = MCP_STATE_UNINITIALIZED,
       previous_state = MCP_STATE_UNINITIALIZED,
       state_entered_time = now,
       transition_count = 0 \<rparr>"

fun is_valid_transition ::
  "mcp_protocol_state \<Rightarrow> mcp_protocol_event \<Rightarrow> mcp_protocol_state \<Rightarrow> bool" where
  "is_valid_transition MCP_STATE_UNINITIALIZED event to =
     (event = MCP_EVENT_INITIALIZE_REQUEST \<and> to = MCP_STATE_INITIALIZING)"
| "is_valid_transition MCP_STATE_INITIALIZING event to =
     ((event = MCP_EVENT_INITIALIZE_RESPONSE \<and> to = MCP_STATE_INITIALIZED) \<or>
      (event = MCP_EVENT_ERROR \<and> to = MCP_STATE_ERROR))"
| "is_valid_transition MCP_STATE_INITIALIZED event to =
     ((event = MCP_EVENT_INITIALIZED_NOTIFICATION \<and> to = MCP_STATE_READY) \<or>
      (event = MCP_EVENT_ERROR \<and> to = MCP_STATE_ERROR))"
| "is_valid_transition MCP_STATE_READY event to =
     ((event = MCP_EVENT_REQUEST \<and> to = MCP_STATE_READY) \<or>
      (event = MCP_EVENT_RESPONSE \<and> to = MCP_STATE_READY) \<or>
      (event = MCP_EVENT_NOTIFICATION \<and> to = MCP_STATE_READY) \<or>
      (event = MCP_EVENT_ERROR \<and> to = MCP_STATE_ERROR) \<or>
      (event = MCP_EVENT_SHUTDOWN \<and> to = MCP_STATE_SHUTDOWN))"
| "is_valid_transition MCP_STATE_ERROR event to =
     ((event = MCP_EVENT_INITIALIZE_REQUEST \<and> to = MCP_STATE_INITIALIZING) \<or>
      (event = MCP_EVENT_SHUTDOWN \<and> to = MCP_STATE_SHUTDOWN))"
| "is_valid_transition MCP_STATE_SHUTDOWN event to = False"

fun get_next_state :: "mcp_protocol_state \<Rightarrow> mcp_protocol_event \<Rightarrow> mcp_protocol_state" where
  "get_next_state MCP_STATE_UNINITIALIZED event =
     (if event = MCP_EVENT_INITIALIZE_REQUEST then MCP_STATE_INITIALIZING
      else MCP_STATE_UNINITIALIZED)"
| "get_next_state MCP_STATE_INITIALIZING event =
     (if event = MCP_EVENT_INITIALIZE_RESPONSE then MCP_STATE_INITIALIZED
      else if event = MCP_EVENT_ERROR then MCP_STATE_ERROR
      else MCP_STATE_INITIALIZING)"
| "get_next_state MCP_STATE_INITIALIZED event =
     (if event = MCP_EVENT_INITIALIZED_NOTIFICATION then MCP_STATE_READY
      else if event = MCP_EVENT_ERROR then MCP_STATE_ERROR
      else MCP_STATE_INITIALIZED)"
| "get_next_state MCP_STATE_READY event =
     (if event = MCP_EVENT_ERROR then MCP_STATE_ERROR
      else if event = MCP_EVENT_SHUTDOWN then MCP_STATE_SHUTDOWN
      else MCP_STATE_READY)"
| "get_next_state MCP_STATE_ERROR event =
     (if event = MCP_EVENT_INITIALIZE_REQUEST then MCP_STATE_INITIALIZING
      else if event = MCP_EVENT_SHUTDOWN then MCP_STATE_SHUTDOWN
      else MCP_STATE_ERROR)"
| "get_next_state MCP_STATE_SHUTDOWN event = MCP_STATE_SHUTDOWN"

text \<open>
  \<^verbatim>\<open>mcp_protocol_state_transition\<close>: the returned flag and the machine afterwards;
  \<open>now\<close> is what \<^verbatim>\<open>time(NULL)\<close> reads.
\<close>

definition mcp_protocol_state_transition ::
  "int \<Rightarrow> mcp_protocol_state_machine \<Rightarrow> mcp_protocol_event \<Rightarrow>
   bool \<times> mcp_protocol_state_machine" where
  "mcp_protocol_state_transition now state_machine event =
     (let next_state = get_next_state (current_state state_machine) event in
      if \<not> is_valid_transition (current_state state_machine) event next_state
      then (False, state_machine)
      else (True, state_machine
              \<lparr> previous_state := current_state state_machine,
                current_state := next_state,
                state_entered_time := now,
                transition_count := transition_count state_machine + 1 \<rparr>))"

definition mcp_protocol_state_can_transition ::
  "mcp_protocol_state_machine \<Rightarrow> mcp_protocol_event \<Rightarrow> bool" where
  "mcp_protocol_state_can_transition state_machine event =
     is_valid_transition (current_state state_machine) event
       (get_next_state (current_state state_machine) event)"

text \<open>
  The transition table of the specification (section 4.2), written from its rows: the
  target of a listed pair, \<open>None\<close> for every pair that is not listed.
\<close>

fun spec_transition_table ::
  "mcp_protocol_state \<Rightarrow> mcp_protocol_event \<Rightarrow> mcp_protocol_state option" where
  "spec_transition_table MCP_STATE_UNINITIALIZED MCP_EVENT_INITIALIZE_REQUEST =
     Some MCP_STATE_INITIALIZING"
| "spec_transition_table MCP_STATE_INITIALIZING MCP_EVENT_INITIALIZE_RESPONSE =
     Some MCP_STATE_INITIALIZED"
| "spec_transition_table MCP_STATE_INITIALIZING MCP_EVENT_ERROR = Some MCP_STATE_ERROR"
| "spec_transition_table MCP_STATE_INITIALIZED MCP_EVENT_INITIALIZED_NOTIFICATION =
     Some MCP_STATE_READY"
| "spec_transition_table MCP_STATE_INITIALIZED MCP_EVENT_ERROR = Some MCP_STATE_ERROR"
| "spec_transition_table MCP_STATE_READY MCP_EVENT_REQUEST = Some MCP_STATE_READY"
| "spec_transition_table MCP_STATE_READY MCP_EVENT_RESPONSE = Some MCP_STATE_READY"
| "spec_transition_table MCP_STATE_READY MCP_EVENT_NOTIFICATION = Some MCP_STATE_READY"
| "spec_transition_table MCP_STATE_READY MCP_EVENT_ERROR = Some MCP_STATE_ERROR"
| "spec_transition_table MCP_STATE_READY MCP_EVENT_SHUTDOWN = Some MCP_STATE_SHUTDOWN"
| "spec_transition_table MCP_STATE_ERROR MCP_EVENT_INITIALIZE_REQUEST =
     Some MCP_STATE_INITIALIZING"
| "spec_transition_table MCP_STATE_ERROR MCP_EVENT_SHUTDOWN = Some MCP_STATE_SHUTDOWN"
| "spec_transition_table _ _ = None"

subsection \<open>C strings\<close>

text \<open>
  The functions of \<^verbatim>\<open>string.h\<close> the code calls. A pointer into a string is the
  suffix it points at, so \<^verbatim>\<open>strstr\<close>, \<^verbatim>\<open>strchr\<close> and \<^verbatim>\<open>strrchr\<close> return the
  suffix that starts at the match, and a difference of two pointers into one string is
  the difference of the lengths of the two suffixes.
\<close>

fun strstr :: "string \<Rightarrow> string \<Rightarrow> string option" where
  "strstr [] needle = (if needle = [] then Some [] else None)"
| "strstr (c # cs) needle =
     (if take (length needle) (c # cs) = needle then Some (c # cs) else strstr cs needle)"

fun strchr :: "string \<Rightarrow> char \<Rightarrow> string option" where
  "strchr [] ch = None"
| "strchr (c # cs) ch = (if c = ch then Some (c # cs) else strchr cs ch)"

fun strrchr :: "string \<Rightarrow> char \<Rightarrow> string option" where
  "strrchr [] ch = None"
| "strrchr (c # cs) ch =
     (case strrchr cs ch of
        Some r \<Rightarrow> Some r
      | None \<Rightarrow> if c = ch then Some (c # cs) else None)"

text \<open>\<^verbatim>\<open>strncmp(a, b, n) == 0\<close>: the first \<open>n\<close> characters agree, or both strings end
  together before that.\<close>

definition strncmp_eq :: "string \<Rightarrow> string \<Rightarrow> nat \<Rightarrow> bool" where
  "strncmp_eq a b n = (take n a = take n b)"

text \<open>\<^verbatim>\<open>snprintf(buf, size, ...)\<close> keeps at most \<open>size - 1\<close> characters of the
  formatted text.\<close>

definition snprintf :: "nat \<Rightarrow> string \<Rightarrow> string" where
  "snprintf buf_size formatted = take (buf_size - 1) formatted"

subsection \<open>JSON values\<close>

text \<open>
  The tree a \<^verbatim>\<open>cJSON *\<close> points at. The code only copies and compares numbers, so
  the payload of a number is an integer here. An object keeps its members in order and
  may repeat a name.
\<close>

datatype json =
    JNull
  | JBool bool
  | JNumber int
  | JString string
  | JArray "json list"
  | JObject "(string \<times> json) list"

text \<open>
  Modelled from the spec: the JSON library behind \<^verbatim>\<open>cjson/cJSON.h\<close> is not among
  the sources; the specification names it as an external collaborator and says nothing
  of how it looks a member up. The lookup here is the one the library documents for
  \<^verbatim>\<open>cJSON_GetObjectItem\<close>: member names are compared without regard to the case of
  ASCII letters, the first member that matches is returned, and a value that is not an
  object has no members. Adding a member appends it.
\<close>

definition tolower :: "char \<Rightarrow> char" where
  "tolower c =
     (if CHR ''A'' \<le> c \<and> c \<le> CHR ''Z'' then char_of (of_char c + (32 :: nat)) else c)"

definition case_insensitive_eq :: "string \<Rightarrow> string \<Rightarrow> bool" where
  "case_insensitive_eq a b = (map tolower a = map tolower b)"

fun get_object_item :: "(string \<times> json) list \<Rightarrow> string \<Rightarrow> json option" where
  "get_object_item [] name = None"
| "get_object_item ((k, v) # rest) name =
     (if case_insensitive_eq name k then Some v else get_object_item rest name)"

fun cJSON_GetObjectItem :: "json \<Rightarrow> string \<Rightarrow> json option" where
  "cJSON_GetObjectItem (JObject members) name = get_object_item members name"
| "cJSON_GetObjectItem _ name = None"

fun cJSON_AddItemToObject :: "json \<Rightarrow> string \<Rightarrow> json \<Rightarrow> json" where
  "cJSON_AddItemToObject (JObject members) name item = JObject (members @ [(name, item)])"
| "cJSON_AddItemToObject j name item = j"

fun cJSON_AddItemToArray :: "json \<Rightarrow> json \<Rightarrow> json" where
  "cJSON_AddItemToArray (JArray items) item = JArray (items @ [item])"
| "cJSON_AddItemToArray j item = j"

fun cJSON_IsString :: "json \<Rightarrow> bool" where
  "cJSON_IsString (JString s) = True"
| "cJSON_IsString _ = False"

fun cJSON_IsNumber :: "json \<Rightarrow> bool" where
  "cJSON_IsNumber (JNumber n) = True"
| "cJSON_IsNumber _ = False"

fun cJSON_IsBool :: "json \<Rightarrow> bool" where
  "cJSON_IsBool (JBool b) = True"
| "cJSON_IsBool _ = False"

fun cJSON_IsArray :: "json \<Rightarrow> bool" where
  "cJSON_IsArray (JArray xs) = True"
| "cJSON_IsArray _ = False"

fun cJSON_IsObject :: "json \<Rightarrow> bool" where
  "cJSON_IsObject (JObject ms) = True"
| "cJSON_IsObject _ = False"

fun cJSON_IsNull :: "json \<Rightarrow> bool" where
  "cJSON_IsNull JNull = True"
| "cJSON_IsNull _ = False"

fun cJSON_IsTrue :: "json \<Rightarrow> bool" where
  "cJSON_IsTrue (JBool b) = b"
| "cJSON_IsTrue _ = False"

text \<open>\<^verbatim>\<open>item->valuestring\<close> of an item that passed \<^verbatim>\<open>cJSON_IsString\<close>.\<close>

fun valuestring :: "json \<Rightarrow> string" where
  "valuestring (JString s) = s"
| "valuestring _ = []"

subsection \<open>Resources: content, descriptors and the file system\<close>

record mcp_resource_content =
  content_data :: string
  content_size :: nat
  content_mime_type :: string
  content_is_binary :: bool

text \<open>
  What the code sees of the file system: \<^verbatim>\<open>stat\<close> on a path fails (\<open>None\<close>) or
  tells whether the path is a regular file and its size; \<^verbatim>\<open>fopen\<close> succeeds or not;
  \<^verbatim>\<open>fread\<close> delivers the bytes of the file, at most as many as asked for.
\<close>

record file_node =
  st_is_reg :: bool
  st_size :: nat
  fopen_ok :: bool
  file_bytes :: string

type_synonym filesystem = "string \<Rightarrow> file_node option"

text \<open>
  The union of \<^verbatim>\<open>struct mcp_resource_desc\<close>, one constructor for each
  \<^verbatim>\<open>mcp_resource_type_t\<close>. A producer closure is the value it would return when
  called: a text producer returns a string or \<^verbatim>\<open>NULL\<close>, a binary producer a status
  with the data and its size.
\<close>

datatype mcp_resource_data =
    MCP_RESOURCE_TEXT "string option"
  | MCP_RESOURCE_BINARY "string option" nat
  | MCP_RESOURCE_FUNCTION bool "string option option" "(int \<times> string \<times> nat) option"
  | MCP_RESOURCE_FILE "string option"
  | MCP_RESOURCE_HTTP

record mcp_resource_desc =
  res_uri :: string
  res_name :: string
  res_description :: "string option"
  res_mime_type :: string
  res_data :: mcp_resource_data

definition read_file_content ::
  "filesystem \<Rightarrow> string \<Rightarrow> string \<Rightarrow> mcp_resource_content option" where
  "read_file_content fs path mime_type =
     (case fs path of
        None \<Rightarrow> None
      | Some node \<Rightarrow>
          if \<not> fopen_ok node then None
          else
            let fsize = st_size node;
                read_size = min fsize (length (file_bytes node))
            in if read_size \<noteq> fsize then None
               else Some \<lparr> content_data = take fsize (file_bytes node),
                            content_size = fsize,
                            content_mime_type = mime_type,
                            content_is_binary = (\<not> strncmp_eq mime_type ''text/'' 5) \<rparr>)"

fun mcp_resource_read_content ::
  "filesystem \<Rightarrow> mcp_resource_desc \<Rightarrow> mcp_resource_content option" where
  "mcp_resource_read_content fs resource =
     (case res_data resource of
        MCP_RESOURCE_TEXT content \<Rightarrow>
          (case content of
             None \<Rightarrow> None
           | Some text \<Rightarrow>
               Some \<lparr> content_data = text, content_size = length text,
                      content_mime_type = res_mime_type resource,
                      content_is_binary = False \<rparr>)
      | MCP_RESOURCE_BINARY data sz \<Rightarrow>
          (case data of
             None \<Rightarrow> None
           | Some bytes \<Rightarrow>
               if sz = 0 then None
               else Some \<lparr> content_data = bytes, content_size = sz,
                           content_mime_type = res_mime_type resource,
                           content_is_binary = True \<rparr>)
      | MCP_RESOURCE_FUNCTION is_binary text_fn binary_fn \<Rightarrow>
          if is_binary then
            (case binary_fn of
               None \<Rightarrow> None
             | Some (status, data, sz) \<Rightarrow>
                 if status \<noteq> 0 then None
                 else Some \<lparr> content_data = data, content_size = sz,
                             content_mime_type = res_mime_type resource,
                             content_is_binary = True \<rparr>)
          else
            (case text_fn of
               None \<Rightarrow> None
             | Some produced \<Rightarrow>
                 (case produced of
                    None \<Rightarrow> None
                  | Some text \<Rightarrow>
                      Some \<lparr> content_data = text, content_size = length text,
                             content_mime_type = res_mime_type resource,
                             content_is_binary = False \<rparr>))
      | MCP_RESOURCE_FILE path \<Rightarrow>
          (case path of
             None \<Rightarrow> None
           | Some p \<Rightarrow> read_file_content fs p (res_mime_type resource))
      | MCP_RESOURCE_HTTP \<Rightarrow> None)"

subsection \<open>Resource templates\<close>

record mcp_resource_template_context =
  resolved_uri :: "string option"
  param_names :: "string list"
  param_values :: "string list"

record mcp_resource_template =
  uri_template :: string
  tmpl_name :: string
  tmpl_title :: "string option"
  tmpl_description :: "string option"
  tmpl_mime_type :: "string option"
  tmpl_handler :: "(mcp_resource_template_context \<Rightarrow> mcp_resource_content option) option"

text \<open>
  \<^verbatim>\<open>mcp_resource_template_parse_uri\<close>: \<open>None\<close> is the return value \<^verbatim>\<open>-1\<close>,
  \<open>Some (names, values)\<close> is \<^verbatim>\<open>0\<close> with the two output arrays.
\<close>

definition mcp_resource_template_parse_uri ::
  "string \<Rightarrow> string \<Rightarrow> (string list \<times> string list) option" where
  "mcp_resource_template_parse_uri template uri =
     (case strstr template ''{'' of
        None \<Rightarrow> Some ([], [])
      | Some param_start \<Rightarrow>
          (case strchr param_start (CHR ''}'') of
             None \<Rightarrow> None
           | Some param_end \<Rightarrow>
               if drop 1 param_end \<noteq> [] then None
               else
                 let param_name_len = length param_start - length param_end - 1;
                     param_name = take param_name_len (drop 1 param_start);
                     prefix_len = length template - length param_start
                 in if \<not> strncmp_eq template uri prefix_len then None
                    else Some ([param_name], [drop prefix_len uri])))"

definition mcp_resource_template_matches_uri :: "string \<Rightarrow> string \<Rightarrow> bool" where
  "mcp_resource_template_matches_uri template uri =
     (case mcp_resource_template_parse_uri template uri of
        Some params \<Rightarrow> True
      | None \<Rightarrow> False)"

subsection \<open>Resource registry\<close>

text \<open>
  The two linked lists of the registry, head first. A \<^verbatim>\<open>while (current)\<close> loop
  over a list is a recursion over it: \<open>find_resource\<close> is the loop of
  \<^verbatim>\<open>mcp_resource_registry_find\<close>, \<open>template_name_exists\<close> the loop of
  \<^verbatim>\<open>mcp_resource_registry_add_template\<close>, \<open>find_template\<close> the loop of
  \<^verbatim>\<open>mcp_resource_registry_find_template\<close>.
\<close>

record mcp_resource_registry =
  resources :: "mcp_resource_desc list"
  res_count :: nat
  templates :: "mcp_resource_template list"
  template_count :: nat

definition mcp_resource_registry_create :: mcp_resource_registry where
  "mcp_resource_registry_create =
     \<lparr> resources = [], res_count = 0, templates = [], template_count = 0 \<rparr>"

fun find_resource :: "mcp_resource_desc list \<Rightarrow> string \<Rightarrow> mcp_resource_desc option" where
  "find_resource [] uri = None"
| "find_resource (current # rest) uri =
     (if res_uri current = uri then Some current else find_resource rest uri)"

definition mcp_resource_registry_find ::
  "mcp_resource_registry \<Rightarrow> string \<Rightarrow> mcp_resource_desc option" where
  "mcp_resource_registry_find registry uri = find_resource (resources registry) uri"

text \<open>\<^verbatim>\<open>add_resource_to_registry\<close>: the status and the registry afterwards.\<close>

definition add_resource_to_registry ::
  "mcp_resource_registry \<Rightarrow> mcp_resource_desc \<Rightarrow> int \<times> mcp_resource_registry" where
  "add_resource_to_registry registry resource =
     (if mcp_resource_registry_find registry (res_uri resource) \<noteq> None then (-1, registry)
      else (0, registry \<lparr> resources := resource # resources registry,
                          res_count := res_count registry + 1 \<rparr>))"

definition mcp_resource_registry_read_resource ::
  "filesystem \<Rightarrow> mcp_resource_registry \<Rightarrow> string \<Rightarrow> mcp_resource_content option" where
  "mcp_resource_registry_read_resource fs registry uri =
     (case mcp_resource_registry_find registry uri of
        None \<Rightarrow> None
      | Some resource \<Rightarrow> mcp_resource_read_content fs resource)"

fun template_name_exists :: "mcp_resource_template list \<Rightarrow> string \<Rightarrow> bool" where
  "template_name_exists [] name = False"
| "template_name_exists (current # rest) name =
     (if tmpl_name current = name then True else template_name_exists rest name)"

definition mcp_resource_registry_add_template ::
  "mcp_resource_registry \<Rightarrow> mcp_resource_template \<Rightarrow> int \<times> mcp_resource_registry" where
  "mcp_resource_registry_add_template registry template =
     (if template_name_exists (templates registry) (tmpl_name template) then (-1, registry)
      else (0, registry \<lparr> templates := template # templates registry,
                          template_count := template_count registry + 1 \<rparr>))"

fun find_template ::
  "mcp_resource_template list \<Rightarrow> string \<Rightarrow> mcp_resource_template option" where
  "find_template [] uri = None"
| "find_template (current # rest) uri =
     (if mcp_resource_template_matches_uri (uri_template current) uri then Some current
      else find_template rest uri)"

definition mcp_resource_registry_find_template ::
  "mcp_resource_registry \<Rightarrow> string \<Rightarrow> mcp_resource_template option" where
  "mcp_resource_registry_find_template registry uri = find_template (templates registry) uri"

definition mcp_resource_registry_read_template ::
  "mcp_resource_registry \<Rightarrow> string \<Rightarrow> mcp_resource_content option" where
  "mcp_resource_registry_read_template registry uri =
     (case mcp_resource_registry_find_template registry uri of
        None \<Rightarrow> None
      | Some template \<Rightarrow>
          (case tmpl_handler template of
             None \<Rightarrow> None
           | Some handler \<Rightarrow>
               (case mcp_resource_template_parse_uri (uri_template template) uri of
                  None \<Rightarrow> None
                | Some (names, vals) \<Rightarrow>
                    handler \<lparr> resolved_uri = Some uri,
                              param_names = names,
                              param_values = vals \<rparr>)))"

subsection \<open>File resource handler\<close>

definition get_mime_type_from_extension :: "string \<Rightarrow> string" where
  "get_mime_type_from_extension filename =
     (case strrchr filename (CHR ''.'') of
        None \<Rightarrow> ''application/octet-stream''
      | Some dot \<Rightarrow>
          let ext = drop 1 dot in
          if ext = ''txt'' then ''text/plain''
          else if ext = ''md'' then ''text/markdown''
          else if ext = ''html'' then ''text/html''
          else if ext = ''htm'' then ''text/html''
          else if ext = ''css'' then ''text/css''
          else if ext = ''js'' then ''application/javascript''
          else if ext = ''json'' then ''application/json''
          else if ext = ''xml'' then ''application/xml''
          else if ext = ''c'' then ''text/x-c''
          else if ext = ''h'' then ''text/x-c''
          else if ext = ''cpp'' then ''text/x-c++''
          else if ext = ''cxx'' then ''text/x-c++''
          else if ext = ''cc'' then ''text/x-c++''
          else if ext = ''py'' then ''text/x-python''
          else if ext = ''rs'' then ''text/x-rust''
          else if ext = ''go'' then ''text/x-go''
          else if ext = ''java'' then ''text/x-java''
          else ''application/octet-stream'')"

text \<open>
  \<^verbatim>\<open>is_path_safe\<close>. \<^verbatim>\<open>path[0]\<close> of the empty string is the terminator, which is
  neither a slash nor a dot; \<^verbatim>\<open>path[1]\<close> of a one-character string is the
  terminator, which is not a slash.
\<close>

definition is_path_safe :: "string \<Rightarrow> bool" where
  "is_path_safe path =
     (if (case path of [] \<Rightarrow> False | c # rest \<Rightarrow> c = CHR ''/'') then False
      else if strstr path ''..'' \<noteq> None then False
      else if (case path of
                 [] \<Rightarrow> False
               | c # rest \<Rightarrow>
                   c = CHR ''.'' \<and> (case rest of [] \<Rightarrow> True | d # rest2 \<Rightarrow> d \<noteq> CHR ''/''))
           then False
      else True)"

text \<open>
  The path the handler derives from the URI: a leading \<^verbatim>\<open>file://\<close> is skipped, then
  one leading slash.
\<close>

definition file_path_of_uri :: "string \<Rightarrow> string" where
  "file_path_of_uri uri =
     (let file_path = (if strncmp_eq uri ''file://'' 7 then drop 7 uri else uri)
      in case file_path of
           [] \<Rightarrow> file_path
         | c # rest \<Rightarrow> if c = CHR ''/'' then rest else file_path)"

definition mcp_file_resource_handler ::
  "filesystem \<Rightarrow> mcp_resource_template_context \<Rightarrow> mcp_resource_content option" where
  "mcp_file_resource_handler fs context =
     (case resolved_uri context of
        None \<Rightarrow> None
      | Some uri \<Rightarrow>
          let file_path = file_path_of_uri uri in
          if \<not> is_path_safe file_path then None
          else
            (case fs file_path of
               None \<Rightarrow> None
             | Some file_stat \<Rightarrow>
                 if \<not> st_is_reg file_stat then None
                 else if st_size file_stat > 1024 * 1024 then None
                 else if \<not> fopen_ok file_stat then None
                 else
                   let file_size = st_size file_stat;
                       bytes_read = min file_size (length (file_bytes file_stat))
                   in if bytes_read \<noteq> file_size then None
                      else
                        let mime_type = get_mime_type_from_extension file_path;
                            is_text = (strncmp_eq mime_type ''text/'' 5 \<or>
                                       mime_type = ''application/json'' \<or>
                                       mime_type = ''application/xml'' \<or>
                                       mime_type = ''application/javascript'')
                        in Some \<lparr> content_data = take file_size (file_bytes file_stat),
                                     content_size = file_size,
                                     content_mime_type = mime_type,
                                     content_is_binary = (\<not> is_text) \<rparr>))"

subsection \<open>Message codec\<close>

text \<open>
  Modelled from the spec: the JSON tokenizer and printer (\<^verbatim>\<open>cJSON_Parse\<close>,
  \<^verbatim>\<open>cJSON_Print\<close>) are external collaborators. A text on the carrier is either the
  text of a JSON value, identified with that value, or malformed; printing a value and
  parsing the result gives the value back.
\<close>

datatype json_text = Text json | Malformed

fun cJSON_Parse :: "json_text \<Rightarrow> json option" where
  "cJSON_Parse (Text j) = Some j"
| "cJSON_Parse Malformed = None"

definition cJSON_Print :: "json \<Rightarrow> json_text" where
  "cJSON_Print j = Text j"

datatype mcp_message_type =
    MCP_MESSAGE_REQUEST
  | MCP_MESSAGE_NOTIFICATION
  | MCP_MESSAGE_RESPONSE
  | MCP_MESSAGE_ERROR

record mcp_message =
  msg_type :: mcp_message_type
  msg_jsonrpc :: "string option"
  msg_id :: "json option"
  msg_method :: "string option"
  msg_params :: "json option"
  msg_result :: "json option"
  msg_error :: "json option"

record mcp_request =
  req_jsonrpc :: "string option"
  req_id :: "json option"
  req_method :: "string option"
  req_params :: "json option"
  req_is_notification :: bool

record mcp_response =
  resp_jsonrpc :: "string option"
  resp_id :: "json option"
  resp_result :: "json option"
  resp_error :: "json option"

abbreviation JSONRPC_PARSE_ERROR :: int where "JSONRPC_PARSE_ERROR \<equiv> -32700"
abbreviation JSONRPC_INVALID_REQUEST :: int where "JSONRPC_INVALID_REQUEST \<equiv> -32600"
abbreviation JSONRPC_METHOD_NOT_FOUND :: int where "JSONRPC_METHOD_NOT_FOUND \<equiv> -32601"
abbreviation JSONRPC_INVALID_PARAMS :: int where "JSONRPC_INVALID_PARAMS \<equiv> -32602"
abbreviation JSONRPC_INTERNAL_ERROR :: int where "JSONRPC_INTERNAL_ERROR \<equiv> -32603"

abbreviation MCP_PROTOCOL_VERSION :: string where "MCP_PROTOCOL_VERSION \<equiv> ''2025-03-26''"

definition mcp_message_validate :: "mcp_message \<Rightarrow> bool" where
  "mcp_message_validate message =
     (if msg_jsonrpc message \<noteq> Some ''2.0'' then False
      else case msg_type message of
        MCP_MESSAGE_REQUEST \<Rightarrow>
          msg_id message \<noteq> None \<and> msg_method message \<noteq> None \<and>
          msg_result message = None \<and> msg_error message = None
      | MCP_MESSAGE_NOTIFICATION \<Rightarrow>
          msg_id message = None \<and> msg_method message \<noteq> None \<and>
          msg_result message = None \<and> msg_error message = None
      | MCP_MESSAGE_RESPONSE \<Rightarrow>
          msg_id message \<noteq> None \<and> msg_method message = None \<and>
          msg_result message \<noteq> None \<and> msg_error message = None
      | MCP_MESSAGE_ERROR \<Rightarrow>
          msg_id message \<noteq> None \<and> msg_method message = None \<and>
          msg_result message = None \<and> msg_error message \<noteq> None)"

text \<open>The string of a member that is present and is a string, as
  \<^verbatim>\<open>if (item && cJSON_IsString(item)) ... strdup(item->valuestring)\<close> reads it.\<close>

fun string_member :: "json option \<Rightarrow> string option" where
  "string_member (Some (JString s)) = Some s"
| "string_member _ = None"

definition mcp_message_parse :: "json_text \<Rightarrow> mcp_message option" where
  "mcp_message_parse json_data =
     (case cJSON_Parse json_data of
        None \<Rightarrow> None
      | Some json \<Rightarrow>
          let jsonrpc = string_member (cJSON_GetObjectItem json ''jsonrpc'');
              ident = cJSON_GetObjectItem json ''id'';
              meth = string_member (cJSON_GetObjectItem json ''method'');
              params = cJSON_GetObjectItem json ''params'';
              result = cJSON_GetObjectItem json ''result'';
              err = cJSON_GetObjectItem json ''error'';
              ty = (if meth \<noteq> None
                    then (if ident \<noteq> None then MCP_MESSAGE_REQUEST
                          else MCP_MESSAGE_NOTIFICATION)
                    else if err \<noteq> None then MCP_MESSAGE_ERROR
                    else MCP_MESSAGE_RESPONSE);
              message = \<lparr> msg_type = ty, msg_jsonrpc = jsonrpc, msg_id = ident,
                          msg_method = meth, msg_params = params,
                          msg_result = result, msg_error = err \<rparr>
          in if \<not> mcp_message_validate message then None else Some message)"

text \<open>The members added by \<^verbatim>\<open>if (p) cJSON_AddItemToObject(json, name, p)\<close>.\<close>

fun optional_member :: "string \<Rightarrow> json option \<Rightarrow> (string \<times> json) list" where
  "optional_member name None = []"
| "optional_member name (Some v) = [(name, v)]"

definition mcp_message_serialize :: "mcp_message \<Rightarrow> json_text option" where
  "mcp_message_serialize message =
     (if \<not> mcp_message_validate message then None
      else
        Some (cJSON_Print (JObject
          ([(''jsonrpc'', JString (case msg_jsonrpc message of
                                     Some v \<Rightarrow> v | None \<Rightarrow> ''2.0''))]
           @ optional_member ''id'' (msg_id message)
           @ optional_member ''method'' (map_option JString (msg_method message))
           @ optional_member ''params'' (msg_params message)
           @ optional_member ''result'' (msg_result message)
           @ optional_member ''error'' (msg_error message)))))"

definition mcp_message_to_request :: "mcp_message \<Rightarrow> mcp_request option" where
  "mcp_message_to_request message =
     (if msg_type message \<noteq> MCP_MESSAGE_REQUEST \<and> msg_type message \<noteq> MCP_MESSAGE_NOTIFICATION
      then None
      else Some \<lparr> req_jsonrpc = msg_jsonrpc message,
                   req_id = msg_id message,
                   req_method = msg_method message,
                   req_params = msg_params message,
                   req_is_notification = (msg_type message = MCP_MESSAGE_NOTIFICATION) \<rparr>)"

definition mcp_message_to_response :: "mcp_message \<Rightarrow> mcp_response option" where
  "mcp_message_to_response message =
     (if msg_type message \<noteq> MCP_MESSAGE_RESPONSE \<and> msg_type message \<noteq> MCP_MESSAGE_ERROR
      then None
      else Some \<lparr> resp_jsonrpc = msg_jsonrpc message,
                   resp_id = msg_id message,
                   resp_result = msg_result message,
                   resp_error = msg_error message \<rparr>)"

definition mcp_response_validate :: "mcp_response \<Rightarrow> bool" where
  "mcp_response_validate response =
     (if resp_jsonrpc response \<noteq> Some ''2.0'' then False
      else if resp_id response = None then False
      else if resp_result response \<noteq> None \<and> resp_error response \<noteq> None then False
      else if resp_result response = None \<and> resp_error response = None then False
      else True)"

text \<open>
  \<^verbatim>\<open>jsonrpc_parser_t\<close> with its ceiling and counters, and
  \<^verbatim>\<open>jsonrpc_parse_message\<close>: the message, or \<^verbatim>\<open>NULL\<close>, and the parser
  afterwards. \<open>data_len\<close> is \<^verbatim>\<open>strlen(json_data)\<close>, which the tree of a text does
  not determine.
\<close>

record jsonrpc_parser =
  max_message_size :: nat
  messages_parsed :: nat
  parse_errors :: nat

definition jsonrpc_parse_message ::
  "jsonrpc_parser \<Rightarrow> nat \<Rightarrow> json_text \<Rightarrow> mcp_message option \<times> jsonrpc_parser" where
  "jsonrpc_parse_message p data_len json_data =
     (if data_len > max_message_size p
      then (None, p \<lparr> parse_errors := parse_errors p + 1 \<rparr>)
      else
        (case mcp_message_parse json_data of
           Some message \<Rightarrow> (Some message, p \<lparr> messages_parsed := messages_parsed p + 1 \<rparr>)
         | None \<Rightarrow> (None, p \<lparr> parse_errors := parse_errors p + 1 \<rparr>)))"

definition jsonrpc_serialize_response :: "mcp_response \<Rightarrow> json_text option" where
  "jsonrpc_serialize_response response =
     (if \<not> mcp_response_validate response then None
      else
        Some (cJSON_Print (JObject
          ([(''jsonrpc'', JString (case resp_jsonrpc response of
                                     Some v \<Rightarrow> v | None \<Rightarrow> ''2.0''))]
           @ optional_member ''id'' (resp_id response)
           @ optional_member ''result'' (resp_result response)
           @ optional_member ''error'' (resp_error response)))))"

definition jsonrpc_serialize_error ::
  "json option \<Rightarrow> int \<Rightarrow> string \<Rightarrow> json option \<Rightarrow> json_text option" where
  "jsonrpc_serialize_error ident code message data =
     Some (cJSON_Print (JObject
       [(''jsonrpc'', JString ''2.0''),
        (''id'', (case ident of Some v \<Rightarrow> v | None \<Rightarrow> JNull)),
        (''error'', JObject ([(''code'', JNumber code), (''message'', JString message)]
                             @ optional_member ''data'' data))]))"

subsection \<open>Tools\<close>

abbreviation MCP_TOOL_ERROR_VALIDATION :: string where
  "MCP_TOOL_ERROR_VALIDATION \<equiv> ''validation_error''"
abbreviation MCP_TOOL_ERROR_EXECUTION :: string where
  "MCP_TOOL_ERROR_EXECUTION \<equiv> ''execution_error''"
abbreviation MCP_TOOL_ERROR_NOT_FOUND :: string where
  "MCP_TOOL_ERROR_NOT_FOUND \<equiv> ''not_found_error''"
abbreviation MCP_TOOL_ERROR_INTERNAL :: string where
  "MCP_TOOL_ERROR_INTERNAL \<equiv> ''internal_error''"

text \<open>
  \<^verbatim>\<open>mcp_tool_t\<close>: the executor and the validator are closures over the arguments
  (which may be absent); the executor returns a value or \<^verbatim>\<open>NULL\<close>.
\<close>

record mcp_tool =
  tool_name :: string
  tool_title :: string
  tool_description :: string
  input_schema :: "json option"
  output_schema :: "json option"
  execute :: "(json option \<Rightarrow> json option) option"
  validate :: "(json option \<Rightarrow> bool) option"

definition mcp_tool_create_error_result ::
  "string option \<Rightarrow> string option \<Rightarrow> json option \<Rightarrow> json" where
  "mcp_tool_create_error_result error_type message details =
     (let error_msg =
            snprintf 512
              (''Error ('' @ (case error_type of Some t \<Rightarrow> t | None \<Rightarrow> MCP_TOOL_ERROR_INTERNAL)
               @ ''): '' @ (case message of Some m \<Rightarrow> m | None \<Rightarrow> ''Unknown error''));
          text_block = JObject [(''type'', JString ''text''), (''text'', JString error_msg)]
      in JObject ([(''content'', JArray [text_block])]
                  @ optional_member ''structuredContent'' details
                  @ [(''isError'', JBool True)]))"

definition mcp_tool_create_validation_error :: "string \<Rightarrow> json" where
  "mcp_tool_create_validation_error message =
     mcp_tool_create_error_result (Some MCP_TOOL_ERROR_VALIDATION) (Some message) None"

definition mcp_tool_create_execution_error :: "string \<Rightarrow> json" where
  "mcp_tool_create_execution_error message =
     mcp_tool_create_error_result (Some MCP_TOOL_ERROR_EXECUTION) (Some message) None"

definition mcp_tool_validate_parameter_type :: "json option \<Rightarrow> string \<Rightarrow> bool" where
  "mcp_tool_validate_parameter_type val expected_type =
     (case val of
        None \<Rightarrow> False
      | Some v \<Rightarrow>
          if expected_type = ''string'' then cJSON_IsString v
          else if expected_type = ''number'' then cJSON_IsNumber v
          else if expected_type = ''boolean'' then cJSON_IsBool v
          else if expected_type = ''array'' then cJSON_IsArray v
          else if expected_type = ''object'' then cJSON_IsObject v
          else if expected_type = ''null'' then cJSON_IsNull v
          else False)"

definition mcp_tool_validate_parameter_against_schema ::
  "json option \<Rightarrow> json option \<Rightarrow> bool" where
  "mcp_tool_validate_parameter_against_schema val schema =
     (case schema of
        None \<Rightarrow> True
      | Some sch \<Rightarrow>
          if val = None then False
          else
            (case string_member (cJSON_GetObjectItem sch ''type'') of
               Some ty \<Rightarrow> if \<not> mcp_tool_validate_parameter_type val ty then False else True
             | None \<Rightarrow> True))"

definition mcp_tool_get_validation_error_message ::
  "json option \<Rightarrow> json option \<Rightarrow> string" where
  "mcp_tool_get_validation_error_message val schema =
     (case schema of
        None \<Rightarrow> ''No schema provided''
      | Some sch \<Rightarrow>
          if val = None then ''No value provided''
          else
            (case string_member (cJSON_GetObjectItem sch ''type'') of
               Some ty \<Rightarrow>
                 if \<not> mcp_tool_validate_parameter_type val ty
                 then snprintf 256 (''Expected type '' @ [CHR 0x27] @ ty @ [CHR 0x27]
                                    @ '' but got different type'')
                 else ''Validation failed''
             | None \<Rightarrow> ''Validation failed''))"

text \<open>
  \<^verbatim>\<open>mcp_tool_execute\<close>, in the order of its statements: the validator closure, then
  the input schema, then the executor.
\<close>

definition mcp_tool_execute :: "mcp_tool \<Rightarrow> json option \<Rightarrow> json" where
  "mcp_tool_execute tool parameters =
     (case execute tool of
        None \<Rightarrow>
          mcp_tool_create_error_result (Some MCP_TOOL_ERROR_INTERNAL)
            (Some ''Tool or execute function is null'') None
      | Some execute_fn \<Rightarrow>
          if (case validate tool of Some validate_fn \<Rightarrow> \<not> validate_fn parameters
              | None \<Rightarrow> False)
          then mcp_tool_create_validation_error ''Parameter validation failed''
          else if input_schema tool \<noteq> None \<and>
                  \<not> mcp_tool_validate_parameter_against_schema parameters (input_schema tool)
          then mcp_tool_create_validation_error
                 (mcp_tool_get_validation_error_message parameters (input_schema tool))
          else
            (case execute_fn parameters of
               None \<Rightarrow> mcp_tool_create_execution_error ''Tool execution returned null result''
             | Some result \<Rightarrow> result))"

definition mcp_tool_to_mcp_tool_definition :: "mcp_tool \<Rightarrow> json" where
  "mcp_tool_to_mcp_tool_definition tool =
     JObject ([(''name'', JString (tool_name tool))]
              @ (if tool_title tool \<noteq> tool_name tool
                 then [(''title'', JString (tool_title tool))] else [])
              @ [(''description'', JString (tool_description tool))]
              @ optional_member ''inputSchema'' (input_schema tool))"

definition mcp_tool_validate_name :: "string \<Rightarrow> bool" where
  "mcp_tool_validate_name name =
     (if length name = 0 then False
      else if length name > 255 then False
      else list_all (\<lambda>p. (CHR ''a'' \<le> p \<and> p \<le> CHR ''z'') \<or>
                          (CHR ''A'' \<le> p \<and> p \<le> CHR ''Z'') \<or>
                          (CHR ''0'' \<le> p \<and> p \<le> CHR ''9'') \<or>
                          p = CHR ''_'' \<or> p = CHR ''-'') name)"

definition mcp_tool_validate_schema :: "json option \<Rightarrow> bool" where
  "mcp_tool_validate_schema schema =
     (case schema of
        None \<Rightarrow> True
      | Some sch \<Rightarrow>
          if \<not> cJSON_IsObject sch then False
          else (case cJSON_GetObjectItem sch ''type'' of
                  Some ty \<Rightarrow> if \<not> cJSON_IsString ty then False else True
                | None \<Rightarrow> True))"

definition mcp_tool_validate :: "mcp_tool \<Rightarrow> bool" where
  "mcp_tool_validate tool =
     (if execute tool = None then False
      else if \<not> mcp_tool_validate_name (tool_name tool) then False
      else if input_schema tool \<noteq> None \<and> \<not> mcp_tool_validate_schema (input_schema tool)
      then False
      else if output_schema tool \<noteq> None \<and> \<not> mcp_tool_validate_schema (output_schema tool)
      then False
      else True)"

subsection \<open>Tool registry\<close>

text \<open>
  An entry keeps the counters of its tool; the time stamps and durations, which are
  readings of the clock, are left out. The list is the linked list, head first, and
  \<open>find_tool_entry\<close> is the loop of \<^verbatim>\<open>mcp_tool_registry_find_tool_entry\<close> over it.
\<close>

record mcp_tool_entry =
  entry_tool :: mcp_tool
  calls_made :: nat
  calls_successful :: nat
  calls_failed :: nat

record mcp_tool_registry =
  max_tools :: nat
  enable_tool_stats :: bool
  strict_validation :: bool
  tools :: "mcp_tool_entry list"
  tool_count :: nat
  total_tools_registered :: nat
  total_calls_made :: nat
  total_calls_successful :: nat
  total_calls_failed :: nat

fun find_tool_entry :: "mcp_tool_entry list \<Rightarrow> string \<Rightarrow> mcp_tool_entry option" where
  "find_tool_entry [] name = None"
| "find_tool_entry (current # rest) name =
     (if tool_name (entry_tool current) = name then Some current
      else find_tool_entry rest name)"

definition mcp_tool_registry_find_tool_entry ::
  "mcp_tool_registry \<Rightarrow> string \<Rightarrow> mcp_tool_entry option" where
  "mcp_tool_registry_find_tool_entry registry name = find_tool_entry (tools registry) name"

definition mcp_tool_registry_register_tool ::
  "mcp_tool_registry \<Rightarrow> mcp_tool \<Rightarrow> int \<times> mcp_tool_registry" where
  "mcp_tool_registry_register_tool registry tool =
     (if strict_validation registry \<and> \<not> mcp_tool_validate tool then (-1, registry)
      else if mcp_tool_registry_find_tool_entry registry (tool_name tool) \<noteq> None
      then (-1, registry)
      else if tool_count registry \<ge> max_tools registry then (-1, registry)
      else (0, registry
              \<lparr> tools := \<lparr> entry_tool = tool, calls_made = 0, calls_successful = 0,
                           calls_failed = 0 \<rparr> # tools registry,
                tool_count := tool_count registry + 1,
                total_tools_registered := total_tools_registered registry + 1 \<rparr>))"

definition mcp_tool_registry_create_tool_not_found_error :: "string \<Rightarrow> json" where
  "mcp_tool_registry_create_tool_not_found_error name =
     mcp_tool_create_error_result (Some MCP_TOOL_ERROR_NOT_FOUND) (Some ''Tool not found'')
       (Some (JObject [(''tool_name'', JString name)]))"

text \<open>The entry that \<^verbatim>\<open>mcp_tool_registry_find_tool_entry\<close> finds, rewritten in place.\<close>

fun update_tool_entry ::
  "mcp_tool_entry list \<Rightarrow> string \<Rightarrow> (mcp_tool_entry \<Rightarrow> mcp_tool_entry) \<Rightarrow> mcp_tool_entry list"
  where
  "update_tool_entry [] name f = []"
| "update_tool_entry (current # rest) name f =
     (if tool_name (entry_tool current) = name then f current # rest
      else current # update_tool_entry rest name f)"

definition mcp_tool_registry_call_tool ::
  "mcp_tool_registry \<Rightarrow> string \<Rightarrow> json option \<Rightarrow> json \<times> mcp_tool_registry" where
  "mcp_tool_registry_call_tool registry name parameters =
     (case mcp_tool_registry_find_tool_entry registry name of
        None \<Rightarrow> (mcp_tool_registry_create_tool_not_found_error name, registry)
      | Some entry \<Rightarrow>
          let result = mcp_tool_execute (entry_tool entry) parameters;
              is_error = cJSON_GetObjectItem result ''isError'';
              succeeded = (case is_error of None \<Rightarrow> True | Some e \<Rightarrow> \<not> cJSON_IsTrue e)
          in if \<not> enable_tool_stats registry then (result, registry)
             else
               (result,
                registry
                  \<lparr> tools := update_tool_entry (tools registry) name
                      (\<lambda>e. e \<lparr> calls_made := calls_made e + 1,
                               calls_successful :=
                                 (if succeeded then calls_successful e + 1
                                  else calls_successful e),
                               calls_failed :=
                                 (if succeeded then calls_failed e else calls_failed e + 1) \<rparr>),
                    total_calls_successful :=
                      (if succeeded then total_calls_successful registry + 1
                       else total_calls_successful registry),
                    total_calls_failed :=
                      (if succeeded then total_calls_failed registry
                       else total_calls_failed registry + 1),
                    total_calls_made := total_calls_made registry + 1 \<rparr>))"

definition mcp_tool_registry_list_tools :: "mcp_tool_registry \<Rightarrow> json" where
  "mcp_tool_registry_list_tools registry =
     JArray (map (\<lambda>e. mcp_tool_to_mcp_tool_definition (entry_tool e)) (tools registry))"

subsection \<open>Protocol dispatcher\<close>

record mcp_capabilities =
  server_tools :: bool
  server_resources :: bool
  server_prompts :: bool
  server_logging :: bool
  client_roots :: bool
  client_sampling :: bool

record mcp_protocol_config =
  server_name :: "string option"
  server_version :: "string option"
  instructions :: "string option"
  capabilities :: "mcp_capabilities option"

text \<open>
  \<^verbatim>\<open>struct mcp_protocol\<close>. The send callback hands a text to the carrier and returns
  the carrier's status. The request handler is the callback of the application; it
  works on the application's data (\<^verbatim>\<open>user_data\<close>), which it may change, and returns a
  result or \<^verbatim>\<open>NULL\<close>. The error callback and the log lines have no effect on what
  is sent and are left out.
\<close>

record 's mcp_protocol =
  config :: mcp_protocol_config
  parser :: jsonrpc_parser
  send_callback :: "(json_text \<Rightarrow> int) option"
  request_handler :: "(mcp_request \<Rightarrow> 's \<Rightarrow> json option \<times> 's) option"
  user_data :: 's
  initialized :: bool
  last_activity :: int

text \<open>
  A function that sends returns its status and the texts it handed to the send
  callback, in order.
\<close>

definition mcp_protocol_send_response ::
  "'s mcp_protocol \<Rightarrow> json option \<Rightarrow> json option \<Rightarrow> int \<times> json_text list" where
  "mcp_protocol_send_response protocol ident result =
     (case send_callback protocol of
        None \<Rightarrow> (-1, [])
      | Some send \<Rightarrow>
          (case jsonrpc_serialize_response
                  \<lparr> resp_jsonrpc = Some ''2.0'', resp_id = ident,
                    resp_result = result, resp_error = None \<rparr> of
             None \<Rightarrow> (-1, [])
           | Some json_str \<Rightarrow> (send json_str, [json_str])))"

definition mcp_protocol_send_error_response ::
  "'s mcp_protocol \<Rightarrow> json option \<Rightarrow> int \<Rightarrow> string \<Rightarrow> json option \<Rightarrow> int \<times> json_text list"
  where
  "mcp_protocol_send_error_response protocol ident code message data =
     (case send_callback protocol of
        None \<Rightarrow> (-1, [])
      | Some send \<Rightarrow>
          (case jsonrpc_serialize_error ident code message data of
             None \<Rightarrow> (-1, [])
           | Some json_str \<Rightarrow> (send json_str, [json_str])))"

definition mcp_protocol_send_parse_error ::
  "'s mcp_protocol \<Rightarrow> json option \<Rightarrow> int \<times> json_text list" where
  "mcp_protocol_send_parse_error protocol ident =
     mcp_protocol_send_error_response protocol ident JSONRPC_PARSE_ERROR ''Parse error'' None"

definition mcp_protocol_send_invalid_request_error ::
  "'s mcp_protocol \<Rightarrow> json option \<Rightarrow> int \<times> json_text list" where
  "mcp_protocol_send_invalid_request_error protocol ident =
     mcp_protocol_send_error_response protocol ident JSONRPC_INVALID_REQUEST
       ''Invalid request'' None"

definition mcp_protocol_send_method_not_found_error ::
  "'s mcp_protocol \<Rightarrow> json option \<Rightarrow> string \<Rightarrow> int \<times> json_text list" where
  "mcp_protocol_send_method_not_found_error protocol ident meth =
     mcp_protocol_send_error_response protocol ident JSONRPC_METHOD_NOT_FOUND
       ''Method not found'' (Some (JObject [(''method'', JString meth)]))"

definition mcp_protocol_send_invalid_params_error ::
  "'s mcp_protocol \<Rightarrow> json option \<Rightarrow> string \<Rightarrow> int \<times> json_text list" where
  "mcp_protocol_send_invalid_params_error protocol ident details =
     mcp_protocol_send_error_response protocol ident JSONRPC_INVALID_PARAMS
       ''Invalid params'' (Some (JObject [(''details'', JString details)]))"

definition mcp_protocol_send_internal_error ::
  "'s mcp_protocol \<Rightarrow> json option \<Rightarrow> string \<Rightarrow> int \<times> json_text list" where
  "mcp_protocol_send_internal_error protocol ident details =
     mcp_protocol_send_error_response protocol ident JSONRPC_INTERNAL_ERROR
       ''Internal error'' (Some (JObject [(''details'', JString details)]))"

definition mcp_protocol_version_is_supported :: "string option \<Rightarrow> bool" where
  "mcp_protocol_version_is_supported version =
     (case version of None \<Rightarrow> False | Some v \<Rightarrow> v = MCP_PROTOCOL_VERSION)"

definition mcp_capabilities_to_json :: "mcp_capabilities \<Rightarrow> json" where
  "mcp_capabilities_to_json caps =
     JObject
       ((if server_prompts caps
         then [(''prompts'', JObject [(''listChanged'', JBool True)])] else [])
        @ (if server_resources caps
           then [(''resources'', JObject [(''subscribe'', JBool False),
                                          (''listChanged'', JBool True)])] else [])
        @ (if server_tools caps
           then [(''tools'', JObject [(''listChanged'', JBool True)])] else [])
        @ (if server_logging caps then [(''logging'', JObject [])] else []))"

definition mcp_protocol_create_server_info :: "'s mcp_protocol \<Rightarrow> json" where
  "mcp_protocol_create_server_info protocol =
     JObject (optional_member ''name'' (map_option JString (server_name (config protocol)))
              @ optional_member ''version''
                  (map_option JString (server_version (config protocol))))"

definition mcp_protocol_create_capabilities_json :: "'s mcp_protocol \<Rightarrow> json option" where
  "mcp_protocol_create_capabilities_json protocol =
     map_option mcp_capabilities_to_json (capabilities (config protocol))"

text \<open>
  \<^verbatim>\<open>mcp_protocol_handle_initialize\<close>: the result, or \<^verbatim>\<open>NULL\<close>, and the protocol
  afterwards. The value of \<^verbatim>\<open>protocolVersion\<close> is looked up and tested for being a
  string; the code reads nothing else of it.
\<close>

definition mcp_protocol_handle_initialize ::
  "'s mcp_protocol \<Rightarrow> mcp_request \<Rightarrow> json option \<times> 's mcp_protocol" where
  "mcp_protocol_handle_initialize protocol request =
     (case req_params request of
        None \<Rightarrow> (None, protocol)
      | Some params \<Rightarrow>
          if \<not> cJSON_IsObject params then (None, protocol)
          else
            (case cJSON_GetObjectItem params ''protocolVersion'' of
               None \<Rightarrow> (None, protocol)
             | Some protocol_version \<Rightarrow>
                 if \<not> cJSON_IsString protocol_version then (None, protocol)
                 else
                   (Some (JObject
                      ([(''protocolVersion'', JString MCP_PROTOCOL_VERSION),
                        (''serverInfo'', mcp_protocol_create_server_info protocol)]
                       @ optional_member ''capabilities''
                           (mcp_protocol_create_capabilities_json protocol)
                       @ (case instructions (config protocol) of
                            None \<Rightarrow> []
                          | Some text \<Rightarrow>
                              if length text > 0
                              then [(''instructions'', JString text)] else []))),
                    protocol \<lparr> initialized := True \<rparr>)))"

definition mcp_protocol_handle_ping :: "'s mcp_protocol \<Rightarrow> mcp_request \<Rightarrow> json option" where
  "mcp_protocol_handle_ping protocol request = Some (JObject [])"

text \<open>
  The tail of \<^verbatim>\<open>mcp_protocol_handle_request\<close>: a result is sent as a response, a
  \<^verbatim>\<open>NULL\<close> result as an internal error.
\<close>

definition send_result_or_internal_error ::
  "'s mcp_protocol \<Rightarrow> mcp_request \<Rightarrow> json option \<Rightarrow> int \<times> json_text list" where
  "send_result_or_internal_error protocol request result =
     (case result of
        Some r \<Rightarrow> mcp_protocol_send_response protocol (req_id request) (Some r)
      | None \<Rightarrow>
          mcp_protocol_send_internal_error protocol (req_id request)
            ''Request handler returned null'')"

text \<open>
  \<^verbatim>\<open>mcp_protocol_handle_request\<close>: status, texts sent, protocol afterwards. The code
  compares \<^verbatim>\<open>request->method\<close> without a guard; every caller passes a request that
  has a method, and for one without the model sends nothing.
\<close>

definition mcp_protocol_handle_request ::
  "'s mcp_protocol \<Rightarrow> mcp_request \<Rightarrow> (int \<times> json_text list) \<times> 's mcp_protocol" where
  "mcp_protocol_handle_request protocol request =
     (case req_method request of
        None \<Rightarrow> ((-1, []), protocol)
      | Some meth \<Rightarrow>
          if meth = ''initialize'' then
            (let (result, protocol') = mcp_protocol_handle_initialize protocol request
             in (send_result_or_internal_error protocol' request result, protocol'))
          else if meth = ''ping'' then
            (send_result_or_internal_error protocol request
               (mcp_protocol_handle_ping protocol request), protocol)
          else
            (case request_handler protocol of
               Some handler \<Rightarrow>
                 (let (result, data') = handler request (user_data protocol);
                      protocol' = protocol \<lparr> user_data := data' \<rparr>
                  in (send_result_or_internal_error protocol' request result, protocol'))
             | None \<Rightarrow>
                 (mcp_protocol_send_method_not_found_error protocol (req_id request) meth,
                  protocol)))"

definition mcp_protocol_handle_initialized ::
  "'s mcp_protocol \<Rightarrow> mcp_request \<Rightarrow> int \<times> json_text list" where
  "mcp_protocol_handle_initialized protocol notification = (0, [])"

definition mcp_protocol_handle_notification ::
  "'s mcp_protocol \<Rightarrow> mcp_request \<Rightarrow> int \<times> json_text list" where
  "mcp_protocol_handle_notification protocol notification =
     (if req_method notification = Some ''notifications/initialized''
      then mcp_protocol_handle_initialized protocol notification
      else (0, []))"

definition mcp_protocol_handle_response ::
  "'s mcp_protocol \<Rightarrow> mcp_response \<Rightarrow> int \<times> json_text list" where
  "mcp_protocol_handle_response protocol response = (0, [])"

text \<open>
  \<^verbatim>\<open>mcp_protocol_handle_message\<close>; \<open>now\<close> is the clock, \<open>data_len\<close> the length of the
  text.
\<close>

definition mcp_protocol_handle_message ::
  "int \<Rightarrow> 's mcp_protocol \<Rightarrow> nat \<Rightarrow> json_text \<Rightarrow> (int \<times> json_text list) \<times> 's mcp_protocol"
  where
  "mcp_protocol_handle_message now protocol0 data_len json_data =
     (let (parsed, parser') = jsonrpc_parse_message (parser protocol0) data_len json_data;
          protocol = protocol0 \<lparr> last_activity := now, parser := parser' \<rparr>
      in case parsed of
           None \<Rightarrow> (mcp_protocol_send_parse_error protocol None, protocol)
         | Some message \<Rightarrow>
             (case msg_type message of
                MCP_MESSAGE_REQUEST \<Rightarrow>
                  (case mcp_message_to_request message of
                     Some request \<Rightarrow> mcp_protocol_handle_request protocol request
                   | None \<Rightarrow>
                       (mcp_protocol_send_invalid_request_error protocol (msg_id message),
                        protocol))
              | MCP_MESSAGE_NOTIFICATION \<Rightarrow>
                  (case mcp_message_to_request message of
                     Some notification \<Rightarrow>
                       (mcp_protocol_handle_notification protocol notification, protocol)
                   | None \<Rightarrow> ((0, []), protocol))
              | MCP_MESSAGE_RESPONSE \<Rightarrow>
                  (case mcp_message_to_response message of
                     Some response \<Rightarrow> (mcp_protocol_handle_response protocol response, protocol)
                   | None \<Rightarrow> ((0, []), protocol))
              | MCP_MESSAGE_ERROR \<Rightarrow>
                  (case mcp_message_to_response message of
                     Some response \<Rightarrow> (mcp_protocol_handle_response protocol response, protocol)
                   | None \<Rightarrow> ((0, []), protocol))))"

subsection \<open>The server and its request handler\<close>

text \<open>
  The part of \<^verbatim>\<open>embed_mcp_server_t\<close> that the request handler reads: the two
  registries. The file system is the environment of the handler.
\<close>

record embed_mcp_server =
  tool_registry :: mcp_tool_registry
  resource_registry :: mcp_resource_registry

text \<open>
  The lookup of \<^verbatim>\<open>resources/read\<close> inside \<^verbatim>\<open>protocol_request_handler\<close>: the static
  table is read first, and the templates are read when that read did not succeed.
\<close>

definition read_static_then_template ::
  "filesystem \<Rightarrow> mcp_resource_registry \<Rightarrow> string \<Rightarrow> mcp_resource_content option" where
  "read_static_then_template fs registry uri =
     (let read_result = mcp_resource_registry_read_resource fs registry uri
      in if read_result = None then mcp_resource_registry_read_template registry uri
         else read_result)"

definition mcp_resource_registry_list_resources :: "mcp_resource_registry \<Rightarrow> json" where
  "mcp_resource_registry_list_resources registry =
     JArray (map (\<lambda>current.
                JObject ([(''uri'', JString (res_uri current)),
                          (''name'', JString (res_name current))]
                         @ optional_member ''description''
                             (map_option JString (res_description current))
                         @ [(''mimeType'', JString (res_mime_type current))]))
             (resources registry))"

definition mcp_resource_registry_list_templates :: "mcp_resource_registry \<Rightarrow> json" where
  "mcp_resource_registry_list_templates registry =
     JArray (map (\<lambda>current.
                JObject ([(''uriTemplate'', JString (uri_template current)),
                          (''name'', JString (tmpl_name current))]
                         @ optional_member ''title'' (map_option JString (tmpl_title current))
                         @ optional_member ''description''
                             (map_option JString (tmpl_description current))
                         @ optional_member ''mimeType''
                             (map_option JString (tmpl_mime_type current))))
             (templates registry))"

definition protocol_request_handler ::
  "filesystem \<Rightarrow> mcp_request \<Rightarrow> embed_mcp_server \<Rightarrow> json option \<times> embed_mcp_server" where
  "protocol_request_handler fs request server =
     (case req_method request of
        None \<Rightarrow> (None, server)
      | Some meth \<Rightarrow>
          if meth = ''tools/list'' then
            (Some (JObject [(''tools'', mcp_tool_registry_list_tools (tool_registry server))]),
             server)
          else if meth = ''tools/call'' then
            (case req_params request of
               None \<Rightarrow> (None, server)
             | Some params \<Rightarrow>
                 (case string_member (cJSON_GetObjectItem params ''name'') of
                    None \<Rightarrow> (None, server)
                  | Some name \<Rightarrow>
                      (let (result, registry') =
                             mcp_tool_registry_call_tool (tool_registry server) name
                               (cJSON_GetObjectItem params ''arguments'')
                       in (Some result, server \<lparr> tool_registry := registry' \<rparr>))))
          else if meth = ''resources/list'' then
            (Some (JObject [(''resources'',
                             mcp_resource_registry_list_resources (resource_registry server))]),
             server)
          else if meth = ''resources/read'' then
            (case req_params request of
               None \<Rightarrow> (None, server)
             | Some params \<Rightarrow>
                 (case string_member (cJSON_GetObjectItem params ''uri'') of
                    None \<Rightarrow> (None, server)
                  | Some uri \<Rightarrow>
                      (case read_static_then_template fs (resource_registry server) uri of
                         None \<Rightarrow> (None, server)
                       | Some content \<Rightarrow>
                           (Some (JObject
                              [(''contents'',
                                JArray [JObject
                                  [(''uri'', JString uri),
                                   (''mimeType'', JString (content_mime_type content)),
                                   (''text'',
                                    JString (if content_is_binary content
                                             then ''[Binary content not supported yet]''
                                             else content_data content))]])]),
                            server))))
          else if meth = ''resources/templates/list'' then
            (Some (JObject [(''resourceTemplates'',
                             mcp_resource_registry_list_templates (resource_registry server))]),
             server)
          else (None, server))"

text \<open>
  The protocol as \<^verbatim>\<open>embed_mcp_create\<close> sets it up: the send callback of the
  carrier and \<^verbatim>\<open>protocol_request_handler\<close> as the request handler, over the server.
\<close>

definition embed_mcp_protocol ::
  "filesystem \<Rightarrow> (json_text \<Rightarrow> int) \<Rightarrow> mcp_protocol_config \<Rightarrow> embed_mcp_server \<Rightarrow>
   embed_mcp_server mcp_protocol" where
  "embed_mcp_protocol fs send cfg server =
     \<lparr> config = cfg,
       parser = \<lparr> max_message_size = 1024 * 1024, messages_parsed = 0, parse_errors = 0 \<rparr>,
       send_callback = Some send,
       request_handler = Some (protocol_request_handler fs),
       user_data = server,
       initialized = False,
       last_activity = 0 \<rparr>"

subsection \<open>Failing tool calls\<close>


text \<open>
  The envelope of a failed call as the specification words it (section 4.4, step 5):
  \<^verbatim>\<open>isError\<close> true, one text block \<^verbatim>\<open>"Error (<kind>): <message>"\<close>, and an optional
  structured payload.
\<close>

definition spec_error_envelope :: "string \<Rightarrow> string \<Rightarrow> json option \<Rightarrow> json" where
  "spec_error_envelope kind message payload =
     JObject ([(''content'',
                JArray [JObject [(''type'', JString ''text''),
                                 (''text'', JString (''Error ('' @ kind @ ''): '' @ message))]])]
              @ optional_member ''structuredContent'' payload
              @ [(''isError'', JBool True)])"

subsection \<open>Registration sequences\<close>

text \<open>
  Registering the templates of a list one after the other, first to last: the sequence
  of calls to \<^verbatim>\<open>mcp_resource_registry_add_template\<close> an embedder makes.
\<close>

fun register_templates ::
  "mcp_resource_registry \<Rightarrow> mcp_resource_template list \<Rightarrow> mcp_resource_registry" where
  "register_templates registry [] = registry"
| "register_templates registry (t # ts) =
     register_templates (snd (mcp_resource_registry_add_template registry t)) ts"

subsection \<open>Example data\<close>

definition example_fs :: filesystem where
  "example_fs path =
     (if path = ''./README.md''
      then Some \<lparr> st_is_reg = True, st_size = 5, fopen_ok = True, file_bytes = ''hello'' \<rparr>
      else if path = ''./../etc/passwd''
      then Some \<lparr> st_is_reg = True, st_size = 4, fopen_ok = True, file_bytes = ''root'' \<rparr>
      else None)"

definition example_plain_template :: mcp_resource_template where
  "example_plain_template =
     \<lparr> uri_template = ''config://app'', tmpl_name = ''config'', tmpl_title = None,
       tmpl_description = None, tmpl_mime_type = None, tmpl_handler = None \<rparr>"

definition example_file_template :: mcp_resource_template where
  "example_file_template =
     \<lparr> uri_template = ''file:///./{path}'', tmpl_name = ''file'', tmpl_title = None,
       tmpl_description = None, tmpl_mime_type = None,
       tmpl_handler = Some (mcp_file_resource_handler example_fs) \<rparr>"

definition text_content :: "string \<Rightarrow> mcp_resource_content" where
  "text_content text =
     \<lparr> content_data = text, content_size = length text,
       content_mime_type = ''text/plain'', content_is_binary = False \<rparr>"

definition example_first_template :: mcp_resource_template where
  "example_first_template =
     \<lparr> uri_template = ''note://{id}'', tmpl_name = ''first'', tmpl_title = None,
       tmpl_description = None, tmpl_mime_type = None,
       tmpl_handler = Some (\<lambda>context. Some (text_content ''from first'')) \<rparr>"

definition example_second_template :: mcp_resource_template where
  "example_second_template =
     \<lparr> uri_template = ''note://{name}'', tmpl_name = ''second'', tmpl_title = None,
       tmpl_description = None, tmpl_mime_type = None,
       tmpl_handler = Some (\<lambda>context. Some (text_content ''from second'')) \<rparr>"

definition example_static_registry :: mcp_resource_registry where
  "example_static_registry =
     snd (add_resource_to_registry mcp_resource_registry_create
            \<lparr> res_uri = ''note://pinned'', res_name = ''pinned'', res_description = None,
              res_mime_type = ''text/plain'',
              res_data = MCP_RESOURCE_TEXT (Some ''static text'') \<rparr>)"

text \<open>A tool \<open>add\<close> of two numbers, with a schema and a validator closure.\<close>

definition example_add_validate :: "json option \<Rightarrow> bool" where
  "example_add_validate args =
     (case args of
        None \<Rightarrow> False
      | Some j \<Rightarrow>
          (case cJSON_GetObjectItem j ''a'' of
             Some (JNumber x) \<Rightarrow>
               (case cJSON_GetObjectItem j ''b'' of Some (JNumber y) \<Rightarrow> True | _ \<Rightarrow> False)
           | _ \<Rightarrow> False))"

definition example_add_execute :: "json option \<Rightarrow> json option" where
  "example_add_execute args =
     (case args of
        None \<Rightarrow> None
      | Some j \<Rightarrow>
          (case cJSON_GetObjectItem j ''a'' of
             Some (JNumber x) \<Rightarrow>
               (case cJSON_GetObjectItem j ''b'' of
                  Some (JNumber y) \<Rightarrow> Some (JNumber (x + y))
                | _ \<Rightarrow> None)
           | _ \<Rightarrow> None))"

definition example_add_tool :: mcp_tool where
  "example_add_tool =
     \<lparr> tool_name = ''add'', tool_title = ''add'', tool_description = ''Add two numbers'',
       input_schema = Some (JObject [(''type'', JString ''object'')]),
       output_schema = None,
       execute = Some example_add_execute,
       validate = Some example_add_validate \<rparr>"

definition example_tool_registry :: mcp_tool_registry where
  "example_tool_registry =
     snd (mcp_tool_registry_register_tool
            \<lparr> max_tools = 100, enable_tool_stats = True, strict_validation = True,
              tools = [], tool_count = 0, total_tools_registered = 0,
              total_calls_made = 0, total_calls_successful = 0, total_calls_failed = 0 \<rparr>
            example_add_tool)"

definition example_server :: embed_mcp_server where
  "example_server =
     \<lparr> tool_registry = example_tool_registry,
       resource_registry = example_static_registry \<rparr>"

definition example_config :: mcp_protocol_config where
  "example_config =
     \<lparr> server_name = Some ''EmbedMCP'', server_version = Some ''1.0.0'',
       instructions = None,
       capabilities = Some \<lparr> server_tools = True, server_resources = True,
                              server_prompts = False, server_logging = True,
                              client_roots = False, client_sampling = False \<rparr> \<rparr>"

text \<open>A carrier that accepts every text and reports the status 0.\<close>

definition example_send :: "json_text \<Rightarrow> int" where
  "example_send t = 0"

definition example_protocol :: "embed_mcp_server mcp_protocol" where
  "example_protocol = embed_mcp_protocol example_fs example_send example_config example_server"

section \<open>Properties\<close>

subsection \<open>Lifecycle\<close>

text \<open>
  C2. The transition operation is the table of the specification: on a listed pair of
  state and event it returns true and moves to the listed target (recording the state
  it left, the time, and one more transition); on every other pair, the terminal
  state \<open>shutdown\<close> included, it returns false and leaves the machine as it was.
\<close>

theorem transition_is_spec_table:
  "mcp_protocol_state_transition now sm ev =
     (case spec_transition_table (current_state sm) ev of
        Some target \<Rightarrow>
          (True, sm \<lparr> previous_state := current_state sm,
                      current_state := target,
                      state_entered_time := now,
                      transition_count := transition_count sm + 1 \<rparr>)
      | None \<Rightarrow> (False, sm))"
  by (cases "current_state sm"; cases ev)
     (simp_all add: mcp_protocol_state_transition_def)

subsection \<open>Strings\<close>

lemma strstr_char_None: "strstr s [c] = None \<longleftrightarrow> c \<notin> set s"
  by (induction s) auto

lemma strstr_char_NoneI: "c \<notin> set s \<Longrightarrow> strstr s [c] = None"
  by (simp add: strstr_char_None)

lemma strstr_Some_iff: "strstr s n \<noteq> None \<longleftrightarrow> (\<exists>a b. s = a @ n @ b)"
proof (induction s)
  case Nil
  then show ?case by auto
next
  case (Cons c cs)
  show ?case
  proof (cases "take (length n) (c # cs) = n")
    case True
    then have "c # cs = [] @ n @ drop (length n) (c # cs)"
      by (metis append_Nil append_take_drop_id)
    then show ?thesis using True by (metis strstr.simps(2) option.distinct(1))
  next
    case False
    have "(\<exists>a b. c # cs = a @ n @ b) \<longleftrightarrow> (\<exists>a b. cs = a @ n @ b)"
    proof
      assume "\<exists>a b. c # cs = a @ n @ b"
      then obtain a b where ab: "c # cs = a @ n @ b" by blast
      show "\<exists>a b. cs = a @ n @ b"
      proof (cases a)
        case Nil
        then have "take (length n) (c # cs) = n" using ab by simp
        then show ?thesis using False by simp
      next
        case (Cons x xs)
        then show ?thesis using ab by auto
      qed
    next
      assume "\<exists>a b. cs = a @ n @ b"
      then obtain a b where "cs = a @ n @ b" by blast
      then have "c # cs = (c # a) @ n @ b" by simp
      then show "\<exists>a b. c # cs = a @ n @ b" by blast
    qed
    then show ?thesis using False Cons.IH by simp
  qed
qed

subsection \<open>Templates\<close>

lemma find_template_skip:
  "\<forall>b \<in> set before. \<not> mcp_resource_template_matches_uri (uri_template b) uri \<Longrightarrow>
   find_template (before @ rest) uri = find_template rest uri"
  by (induction before) auto

lemma file_handler_reads_safe_path:
  "mcp_file_resource_handler example_fs
     \<lparr> resolved_uri = Some ''file:///./README.md'', param_names = [''path''],
       param_values = [''README.md''] \<rparr> =
   Some \<lparr> content_data = ''hello'', content_size = 5,
          content_mime_type = ''text/markdown'', content_is_binary = False \<rparr>"
  by (simp add: mcp_file_resource_handler_def file_path_of_uri_def strncmp_eq_def
      is_path_safe_def example_fs_def get_mime_type_from_extension_def)

text \<open>
  C10, as the code has it. A template whose pattern has no opening brace matches every
  URI: parsing succeeds with no parameter, whatever the URI is, so the matching
  predicate holds. In the template table such a template captures a lookup when no
  template ahead of it in the list (one registered after it) matches the URI, and a
  lookup over a table that holds such a template never comes back empty.
\<close>

theorem template_without_placeholder_matches_every_uri:
  "CHR ''{'' \<notin> set (uri_template t) \<Longrightarrow>
     mcp_resource_template_parse_uri (uri_template t) uri = Some ([], []) \<and>
     mcp_resource_template_matches_uri (uri_template t) uri \<and>
     ((\<forall>b \<in> set before. \<not> mcp_resource_template_matches_uri (uri_template b) uri) \<longrightarrow>
        mcp_resource_registry_find_template
          (registry \<lparr> templates := before @ t # after \<rparr>) uri = Some t) \<and>
     (t \<in> set (templates registry) \<longrightarrow>
        mcp_resource_registry_find_template registry uri \<noteq> None)"
proof -
  assume no_brace: "CHR ''{'' \<notin> set (uri_template t)"
  have p: "mcp_resource_template_parse_uri (uri_template t) uri = Some ([], [])"
    using no_brace by (simp add: mcp_resource_template_parse_uri_def strstr_char_NoneI)
  then have m: "mcp_resource_template_matches_uri (uri_template t) uri"
    by (simp add: mcp_resource_template_matches_uri_def)
  have first: "mcp_resource_registry_find_template
           (registry \<lparr> templates := before @ t # after \<rparr>) uri = Some t"
    if "\<forall>b \<in> set before. \<not> mcp_resource_template_matches_uri (uri_template b) uri"
    using that m by (simp add: mcp_resource_registry_find_template_def find_template_skip)
  have "t \<in> set ts \<Longrightarrow> find_template ts uri \<noteq> None" for ts
    using m by (induction ts) auto
  then have some: "mcp_resource_registry_find_template registry uri \<noteq> None"
    if "t \<in> set (templates registry)"
    using that by (simp add: mcp_resource_registry_find_template_def)
  show ?thesis using p m first some by blast
qed

theorem template_without_placeholder_witness:
  "CHR ''{'' \<notin> set (uri_template example_plain_template) \<and>
   mcp_resource_template_parse_uri ''config://app'' ''weather://today'' = Some ([], []) \<and>
   mcp_resource_template_matches_uri ''config://app'' ''weather://today'' \<and>
   \<not> mcp_resource_template_matches_uri (uri_template example_file_template)
       ''weather://today'' \<and>
   example_plain_template \<in> set [example_file_template, example_plain_template] \<and>
   map_option tmpl_name
     (mcp_resource_registry_find_template
       (mcp_resource_registry_create
          \<lparr> templates := [example_file_template, example_plain_template] \<rparr>)
       ''weather://today'') = Some ''config''"
proof -
  have h: "CHR ''{'' \<notin> set (uri_template example_plain_template)"
    by (simp add: example_plain_template_def)
  have b: "\<forall>b \<in> set [example_file_template].
       \<not> mcp_resource_template_matches_uri (uri_template b) ''weather://today''"
    by (simp add: example_file_template_def mcp_resource_template_matches_uri_def
        mcp_resource_template_parse_uri_def strncmp_eq_def)
  show ?thesis
    using h b
      template_without_placeholder_matches_every_uri
        [OF h, where uri = "''weather://today''"
           and before = "[example_file_template]"
           and registry = mcp_resource_registry_create and after = "[]"]
    by (simp add: example_plain_template_def)
qed

text \<open>
  The claim as it was stated fails in its last clause: a template without a placeholder
  does not capture every lookup that reaches the template table. With the file
  template ahead of it in the list, the URI \<^verbatim>\<open>file:///./README.md\<close>, which the
  template \<^verbatim>\<open>config://app\<close> matches as it matches every URI, is found and answered
  by the file template.
\<close>

theorem template_without_placeholder_capture_counterexample:
  "CHR ''{'' \<notin> set (uri_template example_plain_template) \<and>
   mcp_resource_template_matches_uri (uri_template example_plain_template)
     ''file:///./README.md'' \<and>
   example_plain_template \<in>
     set (templates (mcp_resource_registry_create
                       \<lparr> templates := [example_file_template, example_plain_template] \<rparr>)) \<and>
   map_option tmpl_name
     (mcp_resource_registry_find_template
        (mcp_resource_registry_create
           \<lparr> templates := [example_file_template, example_plain_template] \<rparr>)
        ''file:///./README.md'') = Some ''file'' \<and>
   tmpl_name example_plain_template = ''config'' \<and>
   mcp_resource_registry_read_template
     (mcp_resource_registry_create
        \<lparr> templates := [example_file_template, example_plain_template] \<rparr>)
     ''file:///./README.md'' =
     Some \<lparr> content_data = ''hello'', content_size = 5,
            content_mime_type = ''text/markdown'', content_is_binary = False \<rparr>"
proof -
  let ?uri = "''file:///./README.md''"
  let ?reg = "mcp_resource_registry_create
                \<lparr> templates := [example_file_template, example_plain_template] \<rparr>"
  have plain_match: "mcp_resource_template_matches_uri (uri_template example_plain_template) ?uri"
    by (simp add: example_plain_template_def mcp_resource_template_matches_uri_def
        mcp_resource_template_parse_uri_def)
  have file_match: "mcp_resource_template_matches_uri (uri_template example_file_template) ?uri"
    by (simp add: example_file_template_def mcp_resource_template_matches_uri_def
        mcp_resource_template_parse_uri_def strncmp_eq_def)
  have found: "mcp_resource_registry_find_template ?reg ?uri = Some example_file_template"
    using file_match by (simp add: mcp_resource_registry_find_template_def)
  have parsed: "mcp_resource_template_parse_uri (uri_template example_file_template) ?uri =
                  Some ([''path''], [''README.md''])"
    by (simp add: example_file_template_def mcp_resource_template_parse_uri_def
        strncmp_eq_def)
  have handler: "tmpl_handler example_file_template =
                   Some (mcp_file_resource_handler example_fs)"
    by (simp add: example_file_template_def)
  have read: "mcp_resource_registry_read_template ?reg ?uri =
                Some \<lparr> content_data = ''hello'', content_size = 5,
                       content_mime_type = ''text/markdown'', content_is_binary = False \<rparr>"
    by (simp add: mcp_resource_registry_read_template_def found parsed handler
        file_handler_reads_safe_path)
  have names: "tmpl_name example_file_template = ''file''"
    "tmpl_name example_plain_template = ''config''"
    "CHR ''{'' \<notin> set (uri_template example_plain_template)"
    by (simp_all add: example_file_template_def example_plain_template_def)
  show ?thesis
    using plain_match found read names by simp
qed

subsection \<open>File-backed reads\<close>

lemma is_path_safe_iff:
  "is_path_safe p \<longleftrightarrow>
     \<not> (\<exists>rest. p = CHR ''/'' # rest) \<and>
     \<not> (\<exists>a b. p = a @ ''..'' @ b) \<and>
     \<not> (p = ''.'' \<or> (\<exists>d rest. p = CHR ''.'' # d # rest \<and> d \<noteq> CHR ''/''))"
proof -
  have s: "(strstr p ''..'' \<noteq> None) = (\<exists>a b. p = a @ ''..'' @ b)"
    by (rule strstr_Some_iff)
  show ?thesis
    unfolding is_path_safe_def s
    by (cases p; simp split: list.splits)
qed

text \<open>
  C5. Let \<open>p\<close> be the path the file handler derives from the URI (the scheme
  \<^verbatim>\<open>file://\<close> and then one slash taken off). If \<open>p\<close> starts with a slash, contains two
  dots in a row, starts with a dot that a slash does not follow, does not name a
  regular file, or names a file of more than 1 MiB, the handler fails and returns no
  content. A read through a template bound to the handler then fails with the status
  of a URI that nothing matches.
\<close>

theorem file_handler_rejects_unsafe_path:
  assumes "resolved_uri ctx = Some uri"
    and "p = file_path_of_uri uri"
    and "(\<exists>rest. p = CHR ''/'' # rest) \<or>
         (\<exists>a b. p = a @ ''..'' @ b) \<or>
         p = ''.'' \<or> (\<exists>d rest. p = CHR ''.'' # d # rest \<and> d \<noteq> CHR ''/'') \<or>
         (case fs p of
            None \<Rightarrow> True
          | Some node \<Rightarrow> \<not> st_is_reg node \<or> st_size node > 1024 * 1024)"
  shows "mcp_file_resource_handler fs ctx = None \<and>
         (mcp_resource_registry_find_template registry uri = Some t \<and>
          tmpl_handler t = Some (mcp_file_resource_handler fs) \<longrightarrow>
            mcp_resource_registry_read_template registry uri = None)"
proof -
  have reject: "mcp_file_resource_handler fs c = None" if "resolved_uri c = Some uri" for c
  proof (cases "is_path_safe p")
    case False
    then show ?thesis using that assms(2) by (simp add: mcp_file_resource_handler_def)
  next
    case True
    then have "case fs p of
                 None \<Rightarrow> True
               | Some node \<Rightarrow> \<not> st_is_reg node \<or> st_size node > 1024 * 1024"
      using assms(3) unfolding is_path_safe_iff by blast
    then show ?thesis using that assms(2)
      by (auto simp add: mcp_file_resource_handler_def Let_def split: option.splits)
  qed
  have "mcp_resource_registry_read_template registry uri = None"
    if "mcp_resource_registry_find_template registry uri = Some t"
      and "tmpl_handler t = Some (mcp_file_resource_handler fs)"
    using that reject
    by (simp add: mcp_resource_registry_read_template_def split: option.splits)
  then show ?thesis using reject [OF assms(1)] by blast
qed

theorem file_handler_rejects_unsafe_path_witness:
  "file_path_of_uri ''file:///./../etc/passwd'' = ''./'' @ ''..'' @ ''/etc/passwd'' \<and>
   example_fs (file_path_of_uri ''file:///./../etc/passwd'') \<noteq> None \<and>
   mcp_file_resource_handler example_fs
     \<lparr> resolved_uri = Some ''file:///./../etc/passwd'', param_names = [''path''],
       param_values = [''../etc/passwd''] \<rparr> = None \<and>
   mcp_resource_registry_find_template
     (mcp_resource_registry_create \<lparr> templates := [example_file_template] \<rparr>)
     ''file:///./../etc/passwd'' = Some example_file_template \<and>
   mcp_resource_registry_read_template
     (mcp_resource_registry_create \<lparr> templates := [example_file_template] \<rparr>)
     ''file:///./../etc/passwd'' = None"
proof -
  let ?uri = "''file:///./../etc/passwd''"
  let ?ctx = "\<lparr> resolved_uri = Some ?uri, param_names = [''path''],
                 param_values = [''../etc/passwd''] \<rparr>"
  let ?reg = "mcp_resource_registry_create \<lparr> templates := [example_file_template] \<rparr>"
  have p: "file_path_of_uri ?uri = ''./'' @ ''..'' @ ''/etc/passwd''"
    by (simp add: file_path_of_uri_def strncmp_eq_def)
  have h1: "resolved_uri ?ctx = Some ?uri" by simp
  have h3: "(\<exists>rest. file_path_of_uri ?uri = CHR ''/'' # rest) \<or>
         (\<exists>a b. file_path_of_uri ?uri = a @ ''..'' @ b) \<or>
         file_path_of_uri ?uri = ''.'' \<or>
         (\<exists>d rest. file_path_of_uri ?uri = CHR ''.'' # d # rest \<and> d \<noteq> CHR ''/'') \<or>
         (case example_fs (file_path_of_uri ?uri) of
            None \<Rightarrow> True
          | Some node \<Rightarrow> \<not> st_is_reg node \<or> st_size node > 1024 * 1024)"
    using p by blast
  have f: "mcp_resource_registry_find_template ?reg ?uri = Some example_file_template"
    by (simp add: mcp_resource_registry_find_template_def example_file_template_def
        mcp_resource_template_matches_uri_def mcp_resource_template_parse_uri_def
        strncmp_eq_def)
  have e: "example_fs (file_path_of_uri ?uri) \<noteq> None"
    unfolding p by (simp add: example_fs_def)
  have t: "tmpl_handler example_file_template = Some (mcp_file_resource_handler example_fs)"
    by (simp add: example_file_template_def)
  show ?thesis
    using p e f t
      file_handler_rejects_unsafe_path
        [where ctx = "?ctx" and uri = "?uri" and p = "file_path_of_uri ?uri"
           and fs = example_fs and registry = "?reg" and t = example_file_template,
         OF h1 refl h3]
    by simp
qed

subsection \<open>Lookup order of a resource read\<close>

lemma template_name_exists_iff:
  "template_name_exists ts name \<longleftrightarrow> name \<in> tmpl_name ` set ts"
  by (induction ts) auto

lemma register_templates_templates:
  "distinct (map tmpl_name ts) \<Longrightarrow>
   tmpl_name ` set ts \<inter> tmpl_name ` set (templates registry) = {} \<Longrightarrow>
   templates (register_templates registry ts) = rev ts @ templates registry"
proof (induction ts arbitrary: registry)
  case Nil
  then show ?case by simp
next
  case (Cons t ts)
  let ?r = "snd (mcp_resource_registry_add_template registry t)"
  have fresh: "\<not> template_name_exists (templates registry) (tmpl_name t)"
    using Cons.prems(2) by (auto simp add: template_name_exists_iff)
  then have r: "templates ?r = t # templates registry"
    by (simp add: mcp_resource_registry_add_template_def)
  have "tmpl_name ` set ts \<inter> tmpl_name ` set (templates ?r) = {}"
    using Cons.prems r by auto
  then have "templates (register_templates ?r ts) = rev ts @ templates ?r"
    using Cons.IH [of ?r] Cons.prems(1) by simp
  then show ?case using r by simp
qed

lemma register_templates_resources:
  "resources (register_templates registry ts) = resources registry"
  by (induction ts arbitrary: registry)
     (simp_all add: mcp_resource_registry_add_template_def)

lemma find_template_rev_last:
  assumes "mcp_resource_template_matches_uri (uri_template t) uri"
    and "\<forall>l \<in> set later. \<not> mcp_resource_template_matches_uri (uri_template l) uri"
  shows "find_template (rev (earlier @ t # later)) uri = Some t"
proof -
  have "rev (earlier @ t # later) = rev later @ t # rev earlier" by simp
  moreover have "\<forall>l \<in> set (rev later). \<not> mcp_resource_template_matches_uri (uri_template l) uri"
    using assms(2) by simp
  ultimately show ?thesis
    using assms(1) by (simp add: find_template_skip del: rev_append rev.simps)
qed

text \<open>
  C4, as the code has it. A read looks in the static table first, by exact URI: when an
  entry matches and its content can be read, that content is the result, whatever the
  templates are. When no static entry matches, the templates are tried from the one
  registered last to the one registered first, and the first match in that order wins:
  of the templates that match, the one registered last.
\<close>

theorem resources_read_lookup_order:
  assumes "templates reg0 = []"
    and "distinct (map tmpl_name (earlier @ t # later))"
    and "mcp_resource_template_matches_uri (uri_template t) uri"
    and "\<forall>l \<in> set later. \<not> mcp_resource_template_matches_uri (uri_template l) uri"
    and "registry = register_templates reg0 (earlier @ t # later)"
  shows "(\<forall>r c. mcp_resource_registry_find registry uri = Some r \<and>
                mcp_resource_read_content fs r = Some c \<longrightarrow>
                read_static_then_template fs registry uri = Some c) \<and>
         (mcp_resource_registry_find registry uri = None \<longrightarrow>
            read_static_then_template fs registry uri =
              mcp_resource_registry_read_template registry uri \<and>
            mcp_resource_registry_find_template registry uri = Some t)"
proof -
  have ts: "templates registry = rev (earlier @ t # later)"
    using assms(1,2,5) register_templates_templates [of "earlier @ t # later" reg0] by simp
  have found: "mcp_resource_registry_find_template registry uri = Some t"
    unfolding mcp_resource_registry_find_template_def ts
    using assms(3,4) by (rule find_template_rev_last)
  have static: "read_static_then_template fs registry uri = Some c"
    if "mcp_resource_registry_find registry uri = Some r"
      and "mcp_resource_read_content fs r = Some c" for r c
    using that
    by (simp add: read_static_then_template_def mcp_resource_registry_read_resource_def)
  have fallback: "read_static_then_template fs registry uri =
              mcp_resource_registry_read_template registry uri"
    if "mcp_resource_registry_find registry uri = None"
    using that
    by (simp add: read_static_then_template_def mcp_resource_registry_read_resource_def)
  show ?thesis using found static fallback by blast
qed

lemma example_templates_match:
  "mcp_resource_template_matches_uri (uri_template example_first_template) ''note://pinned''"
  "mcp_resource_template_matches_uri (uri_template example_second_template) ''note://pinned''"
  "mcp_resource_template_matches_uri (uri_template example_first_template) ''note://7''"
  "mcp_resource_template_matches_uri (uri_template example_second_template) ''note://7''"
  by (simp_all add: example_first_template_def example_second_template_def
      mcp_resource_template_matches_uri_def mcp_resource_template_parse_uri_def
      strncmp_eq_def)

lemma example_static_registry_eq:
  "example_static_registry =
     \<lparr> resources = [\<lparr> res_uri = ''note://pinned'', res_name = ''pinned'',
                       res_description = None, res_mime_type = ''text/plain'',
                       res_data = MCP_RESOURCE_TEXT (Some ''static text'') \<rparr>],
       res_count = 1, templates = [], template_count = 0 \<rparr>"
  by (simp add: example_static_registry_def add_resource_to_registry_def
      mcp_resource_registry_create_def mcp_resource_registry_find_def)

lemma example_registered_eq:
  "register_templates example_static_registry
     [example_first_template, example_second_template] =
   example_static_registry
     \<lparr> templates := [example_second_template, example_first_template],
       template_count := 2 \<rparr>"
  by (simp add: example_static_registry_eq mcp_resource_registry_add_template_def
      example_first_template_def example_second_template_def)

theorem resources_read_lookup_order_witness:
  "read_static_then_template example_fs
     (register_templates example_static_registry
        [example_first_template, example_second_template]) ''note://pinned'' =
     Some (text_content ''static text'') \<and>
   mcp_resource_registry_find
     (register_templates example_static_registry
        [example_first_template, example_second_template]) ''note://7'' = None \<and>
   read_static_then_template example_fs
     (register_templates example_static_registry
        [example_first_template, example_second_template]) ''note://7'' =
     Some (text_content ''from second'')"
proof -
  let ?reg = "register_templates example_static_registry
                [example_first_template, example_second_template]"
  let ?pinned = "\<lparr> res_uri = ''note://pinned'', res_name = ''pinned'',
                   res_description = None, res_mime_type = ''text/plain'',
                   res_data = MCP_RESOURCE_TEXT (Some ''static text'') \<rparr>"
  have h1: "templates example_static_registry = []"
    by (simp add: example_static_registry_eq)
  have h2: "distinct (map tmpl_name ([example_first_template] @ example_second_template # []))"
    by (simp add: example_first_template_def example_second_template_def)
  have h4: "\<forall>l \<in> set []. \<not> mcp_resource_template_matches_uri (uri_template l) u" for u
    by simp
  have h5: "?reg = register_templates example_static_registry
                     ([example_first_template] @ example_second_template # [])"
    by simp
  have static_found: "mcp_resource_registry_find ?reg ''note://pinned'' = Some ?pinned"
    unfolding example_registered_eq
    by (simp add: example_static_registry_eq mcp_resource_registry_find_def)
  have static_read: "mcp_resource_read_content example_fs ?pinned =
                       Some (text_content ''static text'')"
    by (simp add: text_content_def)
  have none: "mcp_resource_registry_find ?reg ''note://7'' = None"
    unfolding example_registered_eq
    by (simp add: example_static_registry_eq mcp_resource_registry_find_def)
  have read_second: "mcp_resource_registry_read_template ?reg ''note://7'' =
                       Some (text_content ''from second'')"
    unfolding example_registered_eq
    by (simp add: mcp_resource_registry_read_template_def
        mcp_resource_registry_find_template_def example_templates_match)
       (simp add: example_second_template_def mcp_resource_template_parse_uri_def
        strncmp_eq_def)
  show ?thesis
    using static_found static_read none read_second
      resources_read_lookup_order
        [where fs = example_fs, OF h1 h2 example_templates_match(2) h4 h5]
      resources_read_lookup_order
        [where fs = example_fs, OF h1 h2 example_templates_match(4) h4 h5]
    by simp
qed

text \<open>
  The claim as it was stated fails: of two templates that both match, registered one
  after the other, the read is answered by the second, not by the first.
\<close>

theorem resources_read_registration_order_counterexample:
  "mcp_resource_template_matches_uri (uri_template example_first_template) ''note://7'' \<and>
   mcp_resource_template_matches_uri (uri_template example_second_template) ''note://7'' \<and>
   map_option tmpl_name
     (mcp_resource_registry_find_template
        (register_templates mcp_resource_registry_create
           [example_first_template, example_second_template]) ''note://7'') =
     Some ''second'' \<and>
   read_static_then_template example_fs
     (register_templates mcp_resource_registry_create
        [example_first_template, example_second_template]) ''note://7'' =
     Some (text_content ''from second'')"
proof -
  have reg: "register_templates mcp_resource_registry_create
               [example_first_template, example_second_template] =
             mcp_resource_registry_create
               \<lparr> templates := [example_second_template, example_first_template],
                 template_count := 2 \<rparr>"
    by (simp add: mcp_resource_registry_add_template_def mcp_resource_registry_create_def
        example_first_template_def example_second_template_def)
  have found: "mcp_resource_registry_find_template
                 (mcp_resource_registry_create
                    \<lparr> templates := [example_second_template, example_first_template],
                      template_count := 2 \<rparr>) ''note://7'' = Some example_second_template"
    by (simp add: mcp_resource_registry_find_template_def example_templates_match)
  have name: "tmpl_name example_second_template = ''second''"
    by (simp add: example_second_template_def)
  have read: "read_static_then_template example_fs
                 (mcp_resource_registry_create
                    \<lparr> templates := [example_second_template, example_first_template],
                      template_count := 2 \<rparr>) ''note://7'' =
              Some (text_content ''from second'')"
    by (simp add: read_static_then_template_def mcp_resource_registry_read_resource_def
        mcp_resource_registry_find_def mcp_resource_registry_create_def
        mcp_resource_registry_read_template_def mcp_resource_registry_find_template_def
        example_templates_match)
       (simp add: example_second_template_def mcp_resource_template_parse_uri_def
        strncmp_eq_def)
  show ?thesis
    unfolding reg using example_templates_match(3,4) found name read by simp
qed

subsection \<open>Message codec\<close>

lemma get_object_item_append:
  "get_object_item (xs @ ys) name =
     (case get_object_item xs name of
        Some v \<Rightarrow> Some v
      | None \<Rightarrow> get_object_item ys name)"
  by (induction xs) auto

lemma get_object_item_optional_member:
  "get_object_item (optional_member k v) name =
     (if case_insensitive_eq name k then v else None)"
  by (cases v) simp_all

text \<open>
  C3. Every message that passes validation is serialized, and parsing the
  serialization gives the same message back: the same variant, the same method and
  parameters, the same id value, and the fields that were absent still absent.
\<close>

theorem parse_serialize_round_trip:
  "mcp_message_validate m \<Longrightarrow>
     (\<exists>t. mcp_message_serialize m = Some t \<and> mcp_message_parse t = Some m)"
proof -
  assume valid: "mcp_message_validate m"
  then have v: "msg_jsonrpc m = Some ''2.0''"
    by (simp add: mcp_message_validate_def split: if_splits)
  define members where
    "members = [(''jsonrpc'', JString ''2.0'')]
           @ optional_member ''id'' (msg_id m)
           @ optional_member ''method'' (map_option JString (msg_method m))
           @ optional_member ''params'' (msg_params m)
           @ optional_member ''result'' (msg_result m)
           @ optional_member ''error'' (msg_error m)"
  have ser: "mcp_message_serialize m = Some (Text (JObject members))"
    using valid v by (simp add: mcp_message_serialize_def cJSON_Print_def members_def)
  have look:
    "get_object_item members ''jsonrpc'' = Some (JString ''2.0'')"
    "get_object_item members ''id'' = msg_id m"
    "get_object_item members ''method'' = map_option JString (msg_method m)"
    "get_object_item members ''params'' = msg_params m"
    "get_object_item members ''result'' = msg_result m"
    "get_object_item members ''error'' = msg_error m"
    unfolding members_def
    by (simp_all add: get_object_item_append get_object_item_optional_member
        case_insensitive_eq_def tolower_def split: option.splits)
  have meth: "string_member (map_option JString (msg_method m)) = msg_method m"
    by (cases "msg_method m") simp_all
  have ty: "(if msg_method m \<noteq> None
             then (if msg_id m \<noteq> None then MCP_MESSAGE_REQUEST
                   else MCP_MESSAGE_NOTIFICATION)
             else if msg_error m \<noteq> None then MCP_MESSAGE_ERROR
             else MCP_MESSAGE_RESPONSE) = msg_type m"
    using valid
    by (cases "msg_type m") (auto simp add: mcp_message_validate_def split: if_splits)
  have same: "\<lparr> msg_type = msg_type m, msg_jsonrpc = Some ''2.0'', msg_id = msg_id m,
                 msg_method = msg_method m, msg_params = msg_params m,
                 msg_result = msg_result m, msg_error = msg_error m \<rparr> = m"
    using v by (cases m) simp
  have "mcp_message_parse (Text (JObject members)) =
          (if \<not> mcp_message_validate m then None else Some m)"
    unfolding mcp_message_parse_def Let_def
    by (simp only: cJSON_Parse.simps option.case cJSON_GetObjectItem.simps string_member.simps
        look meth ty same)
  then have "mcp_message_parse (Text (JObject members)) = Some m"
    using valid by simp
  then show ?thesis using ser by blast
qed

theorem parse_serialize_round_trip_witness:
  "mcp_message_validate
     \<lparr> msg_type = MCP_MESSAGE_REQUEST, msg_jsonrpc = Some ''2.0'',
       msg_id = Some (JString ''7''), msg_method = Some ''tools/call'',
       msg_params = Some (JObject [(''name'', JString ''add'')]),
       msg_result = None, msg_error = None \<rparr> \<and>
   mcp_message_serialize
     \<lparr> msg_type = MCP_MESSAGE_REQUEST, msg_jsonrpc = Some ''2.0'',
       msg_id = Some (JString ''7''), msg_method = Some ''tools/call'',
       msg_params = Some (JObject [(''name'', JString ''add'')]),
       msg_result = None, msg_error = None \<rparr> =
     Some (Text (JObject [(''jsonrpc'', JString ''2.0''), (''id'', JString ''7''),
                          (''method'', JString ''tools/call''),
                          (''params'', JObject [(''name'', JString ''add'')])])) \<and>
   mcp_message_parse
     (Text (JObject [(''jsonrpc'', JString ''2.0''), (''id'', JString ''7''),
                     (''method'', JString ''tools/call''),
                     (''params'', JObject [(''name'', JString ''add'')])])) =
     Some \<lparr> msg_type = MCP_MESSAGE_REQUEST, msg_jsonrpc = Some ''2.0'',
            msg_id = Some (JString ''7''), msg_method = Some ''tools/call'',
            msg_params = Some (JObject [(''name'', JString ''add'')]),
            msg_result = None, msg_error = None \<rparr>"
proof -
  let ?m = "\<lparr> msg_type = MCP_MESSAGE_REQUEST, msg_jsonrpc = Some ''2.0'',
              msg_id = Some (JString ''7''), msg_method = Some ''tools/call'',
              msg_params = Some (JObject [(''name'', JString ''add'')]),
              msg_result = None, msg_error = None \<rparr>"
  have v: "mcp_message_validate ?m"
    by (simp add: mcp_message_validate_def)
  have s: "mcp_message_serialize ?m =
             Some (Text (JObject [(''jsonrpc'', JString ''2.0''), (''id'', JString ''7''),
                                  (''method'', JString ''tools/call''),
                                  (''params'', JObject [(''name'', JString ''add'')])]))"
    by (simp add: mcp_message_serialize_def mcp_message_validate_def cJSON_Print_def)
  show ?thesis
    using v s parse_serialize_round_trip [OF v] by auto
qed

subsection \<open>Dispatcher\<close>

lemmas dispatch_defs =
  example_protocol_def embed_mcp_protocol_def example_send_def example_config_def
  mcp_protocol_handle_message_def
  jsonrpc_parse_message_def mcp_message_parse_def mcp_message_validate_def
  mcp_message_to_request_def mcp_message_to_response_def
  mcp_protocol_handle_request_def mcp_protocol_handle_notification_def
  mcp_protocol_handle_initialized_def
  mcp_protocol_handle_response_def send_result_or_internal_error_def
  mcp_protocol_handle_initialize_def mcp_protocol_handle_ping_def
  mcp_protocol_create_server_info_def mcp_protocol_create_capabilities_json_def
  mcp_capabilities_to_json_def
  mcp_protocol_send_response_def mcp_protocol_send_error_response_def
  mcp_protocol_send_parse_error_def mcp_protocol_send_invalid_request_error_def
  mcp_protocol_send_method_not_found_error_def mcp_protocol_send_internal_error_def
  jsonrpc_serialize_response_def jsonrpc_serialize_error_def mcp_response_validate_def
  cJSON_Print_def case_insensitive_eq_def tolower_def Let_def

text \<open>
  C9. The text \<^verbatim>\<open>{"jsonrpc":"2.0","id":1,"result":{},"error":{"code":1,"message":"x"}}\<close>
  is valid JSON and breaks the structural rules (it carries both a result and an
  error). The code answers it with the parse error -32700 and a null id, where the
  claim asks for the invalid-request error -32600: validation is part of
  \<^verbatim>\<open>mcp_message_parse\<close>, which returns \<^verbatim>\<open>NULL\<close> for it, and the dispatcher
  answers every \<^verbatim>\<open>NULL\<close> with a parse error.
\<close>

theorem structural_violation_answered_with_parse_error:
  "mcp_message_parse
     (Text (JObject [(''jsonrpc'', JString ''2.0''), (''id'', JNumber 1),
                     (''result'', JObject []),
                     (''error'', JObject [(''code'', JNumber 1),
                                          (''message'', JString ''x'')])])) = None \<and>
   fst (mcp_protocol_handle_message 0 example_protocol 69
     (Text (JObject [(''jsonrpc'', JString ''2.0''), (''id'', JNumber 1),
                     (''result'', JObject []),
                     (''error'', JObject [(''code'', JNumber 1),
                                          (''message'', JString ''x'')])]))) =
   (0, [Text (JObject [(''jsonrpc'', JString ''2.0''), (''id'', JNull),
                       (''error'', JObject [(''code'', JNumber (- 32700)),
                                            (''message'', JString ''Parse error'')])])])"
  by (simp add: dispatch_defs)

text \<open>
  C6. The request \<^verbatim>\<open>{"jsonrpc":"2.0","id":9,"method":"frob"}\<close> names no known
  method. The server as \<^verbatim>\<open>embed_mcp_create\<close> assembles it answers with the internal
  error -32603 and the data \<^verbatim>\<open>{"details":"Request handler returned null"}\<close>, where
  the claim asks for -32601 with \<^verbatim>\<open>{"method":"frob"}\<close>: the request handler
  returns \<^verbatim>\<open>NULL\<close> for a method it does not know, and the dispatcher sends
  method-not-found only when no request handler is installed.
\<close>

theorem unknown_method_answered_with_internal_error:
  "fst (mcp_protocol_handle_message 0 example_protocol 40
     (Text (JObject [(''jsonrpc'', JString ''2.0''), (''id'', JNumber 9),
                     (''method'', JString ''frob'')]))) =
   (0, [Text (JObject [(''jsonrpc'', JString ''2.0''), (''id'', JNumber 9),
                       (''error'',
                        JObject [(''code'', JNumber (- 32603)),
                                 (''message'', JString ''Internal error''),
                                 (''data'',
                                  JObject [(''details'',
                                    JString ''Request handler returned null'')])])])]) \<and>
   fst (mcp_protocol_handle_message 0 (example_protocol \<lparr> request_handler := None \<rparr>) 40
     (Text (JObject [(''jsonrpc'', JString ''2.0''), (''id'', JNumber 9),
                     (''method'', JString ''frob'')]))) =
   (0, [Text (JObject [(''jsonrpc'', JString ''2.0''), (''id'', JNumber 9),
                       (''error'',
                        JObject [(''code'', JNumber (- 32601)),
                                 (''message'', JString ''Method not found''),
                                 (''data'',
                                  JObject [(''method'', JString ''frob'')])])])])"
  by (simp add: dispatch_defs protocol_request_handler_def)

text \<open>
  C7. An initialize request with the protocol version \<^verbatim>\<open>"1999-01-01"\<close>, which
  \<^verbatim>\<open>mcp_protocol_version_is_supported\<close> rejects, is answered with a result that
  announces \<^verbatim>\<open>"2025-03-26"\<close>, where the claim asks for the invalid-params error
  -32602: \<^verbatim>\<open>mcp_protocol_handle_initialize\<close> tests that the version is a string and
  never compares it.
\<close>

theorem unsupported_version_is_accepted:
  "\<not> mcp_protocol_version_is_supported (Some ''1999-01-01'') \<and>
   fst (mcp_protocol_handle_message 0 example_protocol 146
     (Text (JObject [(''jsonrpc'', JString ''2.0''), (''id'', JNumber 1),
                     (''method'', JString ''initialize''),
                     (''params'',
                      JObject [(''protocolVersion'', JString ''1999-01-01''),
                               (''clientInfo'', JObject [(''name'', JString ''t''),
                                                         (''version'', JString ''0'')]),
                               (''capabilities'', JObject [])])]))) =
   (0, [Text (JObject
          [(''jsonrpc'', JString ''2.0''), (''id'', JNumber 1),
           (''result'',
            JObject
              [(''protocolVersion'', JString ''2025-03-26''),
               (''serverInfo'', JObject [(''name'', JString ''EmbedMCP''),
                                         (''version'', JString ''1.0.0'')]),
               (''capabilities'',
                JObject [(''resources'', JObject [(''subscribe'', JBool False),
                                                  (''listChanged'', JBool True)]),
                         (''tools'', JObject [(''listChanged'', JBool True)]),
                         (''logging'', JObject [])])])])])"
  by (simp add: dispatch_defs mcp_protocol_version_is_supported_def)

subsection \<open>Tool calls\<close>

lemma snprintf_short: "length s < n \<Longrightarrow> snprintf n s = s"
  by (simp add: snprintf_def)

lemma error_result_is_spec_envelope:
  "length kind + length message \<le> 500 \<Longrightarrow>
   mcp_tool_create_error_result (Some kind) (Some message) payload =
     spec_error_envelope kind message payload"
  by (simp add: mcp_tool_create_error_result_def spec_error_envelope_def snprintf_short)

lemma snprintf_256_length: "length (snprintf 256 s) \<le> 255"
  by (simp add: snprintf_def)

lemma validation_error_message_length:
  "length (mcp_tool_get_validation_error_message val schema) \<le> 255"
  by (simp add: mcp_tool_get_validation_error_message_def snprintf_256_length
      split: option.splits)








subsection \<open>Order of the checks of a tool call\<close>

text \<open>
  C8, as the code has it. For a tool with an executor, an input schema and a validator
  closure, the validator closure is consulted first and the schema second. Arguments
  that the validator rejects are refused with the validation error
  \<^verbatim>\<open>"Parameter validation failed"\<close>, whether they fit the schema or not; arguments
  that the validator accepts and the schema rejects are refused with the validation
  error of the schema check. Neither result depends on the executor.
\<close>

theorem validator_is_consulted_before_schema:
  assumes "execute tool = Some execute_fn"
    and "validate tool = Some validate_fn"
    and "input_schema tool = Some schema"
  shows "(\<not> validate_fn parameters \<longrightarrow>
            mcp_tool_execute tool parameters =
              spec_error_envelope ''validation_error'' ''Parameter validation failed'' None) \<and>
         (validate_fn parameters \<and>
          \<not> mcp_tool_validate_parameter_against_schema parameters (Some schema) \<longrightarrow>
            mcp_tool_execute tool parameters =
              spec_error_envelope ''validation_error''
                (mcp_tool_get_validation_error_message parameters (Some schema)) None)"
proof -
  have len: "length ''validation_error'' +
             length (mcp_tool_get_validation_error_message parameters (Some schema)) \<le> 500"
    using validation_error_message_length [of parameters "Some schema"] by simp
  have schema_envelope:
    "mcp_tool_create_error_result (Some ''validation_error'')
       (Some (mcp_tool_get_validation_error_message parameters (Some schema))) None =
     spec_error_envelope ''validation_error''
       (mcp_tool_get_validation_error_message parameters (Some schema)) None"
    using len by (rule error_result_is_spec_envelope)
  show ?thesis
    using assms
    by (simp add: mcp_tool_execute_def mcp_tool_create_validation_error_def
        error_result_is_spec_envelope schema_envelope)
qed

theorem validator_is_consulted_before_schema_witness:
  "\<not> example_add_validate (Some (JString ''two'')) \<and>
   mcp_tool_execute example_add_tool (Some (JString ''two'')) =
     spec_error_envelope ''validation_error'' ''Parameter validation failed'' None \<and>
   \<not> mcp_tool_validate_parameter_against_schema (Some (JString ''two''))
       (Some (JObject [(''type'', JString ''object'')])) \<and>
   mcp_tool_execute (example_add_tool \<lparr> validate := Some (\<lambda>args. True) \<rparr>)
     (Some (JString ''two'')) =
     spec_error_envelope ''validation_error''
       (''Expected type '' @ [CHR 0x27] @ ''object'' @ [CHR 0x27]
        @ '' but got different type'') None"
proof -
  let ?schema = "JObject [(''type'', JString ''object'')]"
  let ?args = "Some (JString ''two'')"
  have e: "execute example_add_tool = Some example_add_execute"
    and v: "validate example_add_tool = Some example_add_validate"
    and s: "input_schema example_add_tool = Some ?schema"
    by (simp_all add: example_add_tool_def)
  have e': "execute (example_add_tool \<lparr> validate := Some (\<lambda>args. True) \<rparr>) =
              Some example_add_execute"
    and v': "validate (example_add_tool \<lparr> validate := Some (\<lambda>args. True) \<rparr>) =
              Some (\<lambda>args. True)"
    and s': "input_schema (example_add_tool \<lparr> validate := Some (\<lambda>args. True) \<rparr>) =
              Some ?schema"
    by (simp_all add: example_add_tool_def)
  have reject: "\<not> example_add_validate ?args"
    by (simp add: example_add_validate_def)
  have schema_reject: "\<not> mcp_tool_validate_parameter_against_schema ?args (Some ?schema)"
    by (simp add: mcp_tool_validate_parameter_against_schema_def
        mcp_tool_validate_parameter_type_def case_insensitive_eq_def tolower_def)
  have msg: "mcp_tool_get_validation_error_message ?args (Some ?schema) =
               ''Expected type '' @ [CHR 0x27] @ ''object'' @ [CHR 0x27]
               @ '' but got different type''"
    by (simp add: mcp_tool_get_validation_error_message_def
        mcp_tool_validate_parameter_type_def case_insensitive_eq_def tolower_def
        snprintf_def)
  show ?thesis
    using reject schema_reject msg
      validator_is_consulted_before_schema [OF e v s, of ?args]
      validator_is_consulted_before_schema [OF e' v' s', of ?args]
    by simp
qed

text \<open>
  The claim as it was stated fails: the string \<^verbatim>\<open>"two"\<close> does not fit the schema
  of the tool, which asks for an object, and still the answer is the verdict of the
  validator closure, not of the schema check. With a validator that accepts, the same
  arguments get the answer of the schema check, so the validator was consulted.
\<close>

theorem schema_before_validator_counterexample:
  "\<not> mcp_tool_validate_parameter_against_schema (Some (JString ''two''))
       (input_schema example_add_tool) \<and>
   mcp_tool_execute example_add_tool (Some (JString ''two'')) =
     mcp_tool_create_validation_error ''Parameter validation failed'' \<and>
   mcp_tool_execute (example_add_tool \<lparr> validate := Some (\<lambda>args. True) \<rparr>)
     (Some (JString ''two'')) =
     mcp_tool_create_validation_error
       (mcp_tool_get_validation_error_message (Some (JString ''two''))
          (input_schema example_add_tool)) \<and>
   mcp_tool_execute example_add_tool (Some (JString ''two'')) \<noteq>
   mcp_tool_execute (example_add_tool \<lparr> validate := Some (\<lambda>args. True) \<rparr>)
     (Some (JString ''two''))"
  by (simp add: mcp_tool_execute_def example_add_tool_def example_add_validate_def
      mcp_tool_validate_parameter_against_schema_def mcp_tool_validate_parameter_type_def
      mcp_tool_get_validation_error_message_def mcp_tool_create_validation_error_def
      mcp_tool_create_error_result_def snprintf_def case_insensitive_eq_def tolower_def)

end
